theory Spec2Isabelle
  imports Main
begin

section \<open>JavaScript values and control flow\<close>

text \<open>
  Strings are lists of characters (a character stands for one code unit of the
  JavaScript string). \<open>s.startsWith(p)\<close> and \<open>s.slice(n)\<close> (for a non-negative
  \<open>n\<close>) are the prefix test and the suffix from index \<open>n\<close>.
\<close>

definition startsWith :: "string \<Rightarrow> string \<Rightarrow> bool" where
  "startsWith s p = (take (length p) s = p)"

definition slice :: "string \<Rightarrow> nat \<Rightarrow> string" where
  "slice s n = drop n s"

text \<open>
  \<open>`${n}`\<close> and \<open>n.toString()\<close> of a non-negative integral Number: its decimal digits.
\<close>

function toString :: "nat \<Rightarrow> string" where
  "toString n =
     (if n < 10 then [''0123456789'' ! n]
      else toString (n div 10) @ [''0123456789'' ! (n mod 10)])"
  by pat_completeness auto
termination
  by (relation "measure id") auto

declare toString.simps [simp del]

text \<open>
  A thrown \<open>Error\<close> object: its \<open>name\<close> and its \<open>message\<close>. \<open>new Error(m)\<close> has the
  name \<open>Error\<close>. \<open>`${error}`\<close> is \<open>Error.prototype.toString\<close>.
\<close>

datatype js_error = JsError (err_name: string) (err_message: string)

definition new_Error :: "string \<Rightarrow> js_error" where
  "new_Error m = JsError ''Error'' m"

definition error_toString :: "js_error \<Rightarrow> string" where
  "error_toString e =
     (if err_name e = [] then err_message e
      else if err_message e = [] then err_name e
      else err_name e @ '': '' @ err_message e)"

text \<open>
  The sources are \<open>async\<close> functions that await one call after the other, inside
  \<open>try\<close>. A computation takes the world (the state of whatever lies outside the
  process, and the trace of the calls made so far) and returns either the thrown error
  or a value, with the new world.
\<close>

record ('s, 'e) world =
  outside :: 's
  trace :: "'e list"

type_synonym ('s, 'e, 'a) prog = "('s, 'e) world \<Rightarrow> (js_error + 'a) \<times> ('s, 'e) world"

definition ret :: "'a \<Rightarrow> ('s, 'e, 'a) prog" where
  "ret x = (\<lambda>w. (Inr x, w))"

definition throw :: "js_error \<Rightarrow> ('s, 'e, 'a) prog" where
  "throw e = (\<lambda>w. (Inl e, w))"

definition bnd :: "('s, 'e, 'a) prog \<Rightarrow> ('a \<Rightarrow> ('s, 'e, 'b) prog) \<Rightarrow> ('s, 'e, 'b) prog" where
  "bnd f g = (\<lambda>w. case f w of (Inl e, w') \<Rightarrow> (Inl e, w') | (Inr x, w') \<Rightarrow> g x w')"

text \<open>
  \<open>call ev op\<close> awaits the outside operation \<open>op\<close>: the operation runs on the outside
  state, and the call is appended to the trace with what it returned.
\<close>

definition call :: "((js_error + 'a) \<Rightarrow> 'e) \<Rightarrow> ('s \<Rightarrow> (js_error + 'a) \<times> 's) \<Rightarrow> ('s, 'e, 'a) prog" where
  "call ev op = (\<lambda>w. case op (outside w) of
                      (r, s') \<Rightarrow> (r, \<lparr>outside = s', trace = trace w @ [ev r]\<rparr>))"

section \<open>The file operations server (src/mcp/github-file-ops-server.ts)\<close>

subsection \<open>Requests and responses\<close>

datatype http_method = GET | POST | PATCH

text \<open>
  A tree entry is \<open>{path, mode, type, content}\<close> in \<open>commit_files\<close> and
  \<open>{path, mode, type, sha: null}\<close> in \<open>delete_files\<close>.
\<close>

datatype blob_ref = Content string | Sha_null

record tree_entry =
  te_path :: string
  te_mode :: string
  te_type :: string
  te_blob :: blob_ref

text \<open>
  The argument of \<open>JSON.stringify\<close> in each request body:
  \<open>{base_tree, tree}\<close>, \<open>{message, tree, parents}\<close> and \<open>{sha, force}\<close>.
\<close>

datatype request_body =
    No_body
  | Tree_body string "tree_entry list"
  | Commit_body string string "string list"
  | Ref_body string bool

record request =
  req_url :: string
  req_method :: http_method
  req_headers :: "(string \<times> string) list"
  req_body :: request_body

text \<open>
  The response of \<open>fetch\<close>: \<open>ok\<close>, \<open>status\<close>, the body as \<open>text()\<close> and as
  \<open>json()\<close>. The source casts the JSON body to a declared type with \<open>as\<close>, so the
  host's \<open>fetch\<close> is taken once for each of these types, and for the update of the
  ref, whose body is not read when the response is \<open>ok\<close>. A \<open>fetch\<close> answers with a
  response or rejects with an error; reading the body of a response is taken not to
  fail.
\<close>

record 'a response =
  ok :: bool
  status :: nat
  body_text :: string
  json :: 'a

record GitHubRef =
  ref_object_sha :: string

record GitHubCommit =
  commit_tree_sha :: string

record GitHubTree =
  tree_sha :: string

record GitHubNewCommit =
  new_sha :: string
  new_message :: string
  new_author_name :: string
  new_author_date :: string

record 'h host =
  fetch_GitHubRef :: "request \<Rightarrow> 'h \<Rightarrow> (js_error + GitHubRef response) \<times> 'h"
  fetch_GitHubCommit :: "request \<Rightarrow> 'h \<Rightarrow> (js_error + GitHubCommit response) \<times> 'h"
  fetch_GitHubTree :: "request \<Rightarrow> 'h \<Rightarrow> (js_error + GitHubTree response) \<times> 'h"
  fetch_GitHubNewCommit :: "request \<Rightarrow> 'h \<Rightarrow> (js_error + GitHubNewCommit response) \<times> 'h"
  fetch_untyped :: "request \<Rightarrow> 'h \<Rightarrow> (js_error + unit response) \<times> 'h"

text \<open>What the trace keeps of a call: the request, and the rejection or the response's
  \<open>ok\<close>, \<open>status\<close> and \<open>text\<close>; and the path of each local file read.\<close>

datatype answer = Rejected js_error | Answered bool nat string

definition answer_of :: "js_error + 'a response \<Rightarrow> answer" where
  "answer_of r = (case r of Inl e \<Rightarrow> Rejected e
                  | Inr rsp \<Rightarrow> Answered (ok rsp) (status rsp) (body_text rsp))"

datatype event = Fetch request answer | ReadFile string

definition fetch ::
  "(request \<Rightarrow> 'h \<Rightarrow> (js_error + 'a response) \<times> 'h) \<Rightarrow> request \<Rightarrow> ('h, event, 'a response) prog" where
  "fetch f req = call (\<lambda>r. Fetch req (answer_of r)) (f req)"

subsection \<open>The process environment and the local files\<close>

text \<open>
  \<open>GITHUB_API_URL\<close> is imported from \<open>../github/api/config\<close>. \<open>REPO_OWNER\<close>,
  \<open>REPO_NAME\<close> and \<open>BRANCH_NAME\<close> are non-empty when a tool runs: the server exits
  at start otherwise.
\<close>

record env =
  GITHUB_API_URL :: string
  REPO_OWNER :: string
  REPO_NAME :: string
  BRANCH_NAME :: string
  env_REPO_DIR :: "string option"
  env_GITHUB_TOKEN :: "string option"
  process_cwd :: string

definition REPO_DIR :: "env \<Rightarrow> string" where
  "REPO_DIR env =
     (case env_REPO_DIR env of
        None \<Rightarrow> process_cwd env
      | Some d \<Rightarrow> if d = [] then process_cwd env else d)"

text \<open>
  \<open>readFile(path, "utf-8")\<close> of \<open>fs/promises\<close> and \<open>join\<close> of \<open>path\<close>.
  \<open>Promise.all\<close> rejects with the rejection that settles first: \<open>first_rejection\<close>
  chooses it among the rejections.
\<close>

record node =
  readFile :: "string \<Rightarrow> js_error + string"
  join :: "string \<Rightarrow> string \<Rightarrow> string"
  first_rejection :: "js_error list \<Rightarrow> nat"

definition Promise_all :: "node \<Rightarrow> (js_error + 'a) list \<Rightarrow> js_error + 'a list" where
  "Promise_all node rs =
     (let rejections = map projl (filter isl rs)
      in if rejections = [] then Inr (map projr rs)
         else Inl (rejections ! (first_rejection node rejections mod length rejections)))"

subsection \<open>What a tool returns\<close>

record commit_summary =
  cs_sha :: string
  cs_message :: string
  cs_author :: string
  cs_date :: string

text \<open>
  \<open>Committed c files tree\<close> is the payload whose text is the JSON of
  \<open>{commit: c, files: [{path}..], tree: {sha}}\<close>; \<open>Deleted\<close> has \<open>deletedFiles\<close>
  in the place of \<open>files\<close>; \<open>Error_payload m\<close> is
  \<open>{content: [{type: "text", text: `Error: ${m}`}], error: m, isError: true}\<close>.
\<close>

datatype payload =
    Committed commit_summary "string list" string
  | Deleted commit_summary "string list" string
  | Error_payload string

definition isError :: "payload \<Rightarrow> bool" where
  "isError p = (case p of Error_payload m \<Rightarrow> True | _ \<Rightarrow> False)"

text \<open>
  The \<open>try { .. } catch (error) { return {.. isError: true} }\<close> around each tool. A
  tool starts on the host's state with an empty trace, so the trace of its result holds
  the calls of this invocation.
\<close>

definition tool :: "('h, event, payload) prog \<Rightarrow> ('h, event) world \<Rightarrow> payload \<times> ('h, event) world" where
  "tool body w = (case body w of
                    (Inl e, w') \<Rightarrow> (Error_payload (err_message e), w')
                  | (Inr p, w') \<Rightarrow> (p, w'))"

definition require_token :: "env \<Rightarrow> ('h, event, string) prog" where
  "require_token env =
     (case env_GITHUB_TOKEN env of
        None \<Rightarrow> throw (new_Error ''GITHUB_TOKEN environment variable is required'')
      | Some t \<Rightarrow> if t = [] then throw (new_Error ''GITHUB_TOKEN environment variable is required'')
                  else ret t)"

definition get_headers :: "string \<Rightarrow> (string \<times> string) list" where
  "get_headers githubToken =
     [(''Accept'', ''application/vnd.github+json''),
      (''Authorization'', ''Bearer '' @ githubToken),
      (''X-GitHub-Api-Version'', ''2022-11-28'')]"

definition post_headers :: "string \<Rightarrow> (string \<times> string) list" where
  "post_headers githubToken = get_headers githubToken @ [(''Content-Type'', ''application/json'')]"

definition refUrl :: "env \<Rightarrow> string" where
  "refUrl env = GITHUB_API_URL env @ ''/repos/'' @ REPO_OWNER env @ ''/'' @ REPO_NAME env
                  @ ''/git/refs/heads/'' @ BRANCH_NAME env"

definition commitUrl :: "env \<Rightarrow> string \<Rightarrow> string" where
  "commitUrl env baseSha = GITHUB_API_URL env @ ''/repos/'' @ REPO_OWNER env @ ''/'' @ REPO_NAME env
                  @ ''/git/commits/'' @ baseSha"

definition treeUrl :: "env \<Rightarrow> string" where
  "treeUrl env = GITHUB_API_URL env @ ''/repos/'' @ REPO_OWNER env @ ''/'' @ REPO_NAME env
                  @ ''/git/trees''"

definition newCommitUrl :: "env \<Rightarrow> string" where
  "newCommitUrl env = GITHUB_API_URL env @ ''/repos/'' @ REPO_OWNER env @ ''/'' @ REPO_NAME env
                  @ ''/git/commits''"

text \<open>The five requests, as the two tools build them (the same literals in both).\<close>

definition getRef_request :: "env \<Rightarrow> string \<Rightarrow> request" where
  "getRef_request env githubToken =
     \<lparr>req_url = refUrl env, req_method = GET,
      req_headers = get_headers githubToken, req_body = No_body\<rparr>"

definition getCommit_request :: "env \<Rightarrow> string \<Rightarrow> string \<Rightarrow> request" where
  "getCommit_request env githubToken baseSha =
     \<lparr>req_url = commitUrl env baseSha, req_method = GET,
      req_headers = get_headers githubToken, req_body = No_body\<rparr>"

definition createTree_request :: "env \<Rightarrow> string \<Rightarrow> string \<Rightarrow> tree_entry list \<Rightarrow> request" where
  "createTree_request env githubToken baseTreeSha treeEntries =
     \<lparr>req_url = treeUrl env, req_method = POST,
      req_headers = post_headers githubToken,
      req_body = Tree_body baseTreeSha treeEntries\<rparr>"

definition createCommit_request :: "env \<Rightarrow> string \<Rightarrow> string \<Rightarrow> string \<Rightarrow> string \<Rightarrow> request" where
  "createCommit_request env githubToken message treeSha baseSha =
     \<lparr>req_url = newCommitUrl env, req_method = POST,
      req_headers = post_headers githubToken,
      req_body = Commit_body message treeSha [baseSha]\<rparr>"

definition updateRef_request :: "env \<Rightarrow> string \<Rightarrow> string \<Rightarrow> request" where
  "updateRef_request env githubToken newSha =
     \<lparr>req_url = refUrl env, req_method = PATCH,
      req_headers = post_headers githubToken,
      req_body = Ref_body newSha False\<rparr>"

definition simplified_commit :: "GitHubNewCommit \<Rightarrow> commit_summary" where
  "simplified_commit newCommitData =
     \<lparr>cs_sha = new_sha newCommitData, cs_message = new_message newCommitData,
      cs_author = new_author_name newCommitData, cs_date = new_author_date newCommitData\<rparr>"

subsection \<open>commit_files\<close>

definition commit_processedFiles :: "string list \<Rightarrow> string list" where
  "commit_processedFiles files =
     map (\<lambda>filePath. if startsWith filePath ''/'' then slice filePath 1 else filePath) files"

definition fullPath :: "env \<Rightarrow> node \<Rightarrow> string \<Rightarrow> string" where
  "fullPath env node filePath =
     (if startsWith filePath ''/'' then filePath else join node (REPO_DIR env) filePath)"

text \<open>
  Step 3: every callback of \<open>processedFiles.map\<close> runs up to its \<open>readFile\<close>, so every
  file is read, in order; \<open>Promise.all\<close> then gives the entries or a rejection.
\<close>

definition read_treeEntries :: "env \<Rightarrow> node \<Rightarrow> string list \<Rightarrow> ('h, event, tree_entry list) prog" where
  "read_treeEntries env node processedFiles =
     (\<lambda>w. (Promise_all node
             (map (\<lambda>filePath.
                     case readFile node (fullPath env node filePath) of
                       Inl e \<Rightarrow> Inl e
                     | Inr content \<Rightarrow>
                         Inr \<lparr>te_path = filePath, te_mode = ''100644'', te_type = ''blob'',
                              te_blob = Content content\<rparr>)
                  processedFiles),
            w\<lparr>trace := trace w @ map (\<lambda>filePath. ReadFile (fullPath env node filePath)) processedFiles\<rparr>))"

definition commit_files_body ::
  "env \<Rightarrow> node \<Rightarrow> 'h host \<Rightarrow> string list \<Rightarrow> string \<Rightarrow> ('h, event, payload) prog" where
  "commit_files_body env node host files message =
     bnd (require_token env) (\<lambda>githubToken.
     let processedFiles = commit_processedFiles files in
     bnd (fetch (fetch_GitHubRef host)
            (getRef_request env githubToken)) (\<lambda>refResponse.
     if \<not> ok refResponse
     then throw (new_Error (''Failed to get branch reference: '' @ toString (status refResponse)))
     else
     let baseSha = ref_object_sha (json refResponse) in
     bnd (fetch (fetch_GitHubCommit host)
            (getCommit_request env githubToken baseSha)) (\<lambda>commitResponse.
     if \<not> ok commitResponse
     then throw (new_Error (''Failed to get base commit: '' @ toString (status commitResponse)))
     else
     let baseTreeSha = commit_tree_sha (json commitResponse) in
     bnd (read_treeEntries env node processedFiles) (\<lambda>treeEntries.
     bnd (fetch (fetch_GitHubTree host)
            (createTree_request env githubToken baseTreeSha treeEntries)) (\<lambda>treeResponse.
     if \<not> ok treeResponse
     then throw (new_Error (''Failed to create tree: '' @ toString (status treeResponse)
                              @ '' - '' @ body_text treeResponse))
     else
     let treeData = json treeResponse in
     bnd (fetch (fetch_GitHubNewCommit host)
            (createCommit_request env githubToken message (tree_sha treeData) baseSha)) (\<lambda>newCommitResponse.
     if \<not> ok newCommitResponse
     then throw (new_Error (''Failed to create commit: '' @ toString (status newCommitResponse)
                              @ '' - '' @ body_text newCommitResponse))
     else
     let newCommitData = json newCommitResponse in
     bnd (fetch (fetch_untyped host)
            (updateRef_request env githubToken (new_sha newCommitData))) (\<lambda>updateRefResponse.
     if \<not> ok updateRefResponse
     then throw (new_Error (''Failed to update reference: '' @ toString (status updateRefResponse)
                              @ '' - '' @ body_text updateRefResponse))
     else
     ret (Committed
            (simplified_commit newCommitData)
            processedFiles
            (tree_sha treeData)))))))))"

definition commit_files ::
  "env \<Rightarrow> node \<Rightarrow> 'h host \<Rightarrow> string list \<Rightarrow> string \<Rightarrow> 'h \<Rightarrow> payload \<times> ('h, event) world" where
  "commit_files env node host files message h =
     tool (commit_files_body env node host files message) \<lparr>outside = h, trace = []\<rparr>"

subsection \<open>delete_files\<close>

text \<open>\<open>paths.map\<close> with a callback that throws: the first path that throws ends the map.\<close>

definition delete_processedPath :: "string \<Rightarrow> string \<Rightarrow> js_error + string" where
  "delete_processedPath cwd filePath =
     (if startsWith filePath ''/''
      then (if startsWith filePath cwd
            then Inr (slice filePath (length cwd + 1))
            else Inl (new_Error (''Path '' @ [CHR 0x27] @ filePath @ [CHR 0x27]
                       @ '' must be relative to repository root or within current working directory'')))
      else Inr filePath)"

fun delete_processedPaths :: "string \<Rightarrow> string list \<Rightarrow> js_error + string list" where
  "delete_processedPaths cwd [] = Inr []"
| "delete_processedPaths cwd (filePath # paths) =
     (case delete_processedPath cwd filePath of
        Inl e \<Rightarrow> Inl e
      | Inr p \<Rightarrow> (case delete_processedPaths cwd paths of
                    Inl e \<Rightarrow> Inl e
                  | Inr ps \<Rightarrow> Inr (p # ps)))"

definition delete_treeEntries :: "string list \<Rightarrow> tree_entry list" where
  "delete_treeEntries processedPaths =
     map (\<lambda>path. \<lparr>te_path = path, te_mode = ''100644'', te_type = ''blob'', te_blob = Sha_null\<rparr>)
       processedPaths"

definition delete_files_body ::
  "env \<Rightarrow> 'h host \<Rightarrow> string list \<Rightarrow> string \<Rightarrow> ('h, event, payload) prog" where
  "delete_files_body env host paths message =
     bnd (require_token env) (\<lambda>githubToken.
     let cwd = process_cwd env in
     bnd (case delete_processedPaths cwd paths of Inl e \<Rightarrow> throw e | Inr ps \<Rightarrow> ret ps)
       (\<lambda>processedPaths.
     bnd (fetch (fetch_GitHubRef host)
            (getRef_request env githubToken)) (\<lambda>refResponse.
     if \<not> ok refResponse
     then throw (new_Error (''Failed to get branch reference: '' @ toString (status refResponse)))
     else
     let baseSha = ref_object_sha (json refResponse) in
     bnd (fetch (fetch_GitHubCommit host)
            (getCommit_request env githubToken baseSha)) (\<lambda>commitResponse.
     if \<not> ok commitResponse
     then throw (new_Error (''Failed to get base commit: '' @ toString (status commitResponse)))
     else
     let baseTreeSha = commit_tree_sha (json commitResponse) in
     let treeEntries = delete_treeEntries processedPaths in
     bnd (fetch (fetch_GitHubTree host)
            (createTree_request env githubToken baseTreeSha treeEntries)) (\<lambda>treeResponse.
     if \<not> ok treeResponse
     then throw (new_Error (''Failed to create tree: '' @ toString (status treeResponse)
                              @ '' - '' @ body_text treeResponse))
     else
     let treeData = json treeResponse in
     bnd (fetch (fetch_GitHubNewCommit host)
            (createCommit_request env githubToken message (tree_sha treeData) baseSha)) (\<lambda>newCommitResponse.
     if \<not> ok newCommitResponse
     then throw (new_Error (''Failed to create commit: '' @ toString (status newCommitResponse)
                              @ '' - '' @ body_text newCommitResponse))
     else
     let newCommitData = json newCommitResponse in
     bnd (fetch (fetch_untyped host)
            (updateRef_request env githubToken (new_sha newCommitData))) (\<lambda>updateRefResponse.
     if \<not> ok updateRefResponse
     then throw (new_Error (''Failed to update reference: '' @ toString (status updateRefResponse)
                              @ '' - '' @ body_text updateRefResponse))
     else
     ret (Deleted
            (simplified_commit newCommitData)
            processedPaths
            (tree_sha treeData)))))))))"

definition delete_files ::
  "env \<Rightarrow> 'h host \<Rightarrow> string list \<Rightarrow> string \<Rightarrow> 'h \<Rightarrow> payload \<times> ('h, event) world" where
  "delete_files env host paths message h =
     tool (delete_files_body env host paths message) \<lparr>outside = h, trace = []\<rparr>"

subsection \<open>The protocol of the two tools\<close>

text \<open>
  The commit protocol as the spec lists it (steps 1, 2, 4, 5 and 6 of its section 4.1),
  with step 3, which produces the tree entries, and the shape of the success payload
  left open. The spec does not fix the texts of the errors; they are those of the source.
\<close>

definition commit_protocol ::
  "env \<Rightarrow> 'h host \<Rightarrow> string \<Rightarrow> ('h, event, tree_entry list) prog \<Rightarrow> string
     \<Rightarrow> (commit_summary \<Rightarrow> string \<Rightarrow> payload) \<Rightarrow> ('h, event, payload) prog" where
  "commit_protocol env host githubToken step3 message result =
     bnd (fetch (fetch_GitHubRef host) (getRef_request env githubToken)) (\<lambda>refResponse.
     if \<not> ok refResponse
     then throw (new_Error (''Failed to get branch reference: '' @ toString (status refResponse)))
     else
     bnd (fetch (fetch_GitHubCommit host)
            (getCommit_request env githubToken (ref_object_sha (json refResponse)))) (\<lambda>commitResponse.
     if \<not> ok commitResponse
     then throw (new_Error (''Failed to get base commit: '' @ toString (status commitResponse)))
     else
     bnd step3 (\<lambda>treeEntries.
     bnd (fetch (fetch_GitHubTree host)
            (createTree_request env githubToken (commit_tree_sha (json commitResponse)) treeEntries))
       (\<lambda>treeResponse.
     if \<not> ok treeResponse
     then throw (new_Error (''Failed to create tree: '' @ toString (status treeResponse)
                              @ '' - '' @ body_text treeResponse))
     else
     bnd (fetch (fetch_GitHubNewCommit host)
            (createCommit_request env githubToken message (tree_sha (json treeResponse))
               (ref_object_sha (json refResponse)))) (\<lambda>newCommitResponse.
     if \<not> ok newCommitResponse
     then throw (new_Error (''Failed to create commit: '' @ toString (status newCommitResponse)
                              @ '' - '' @ body_text newCommitResponse))
     else
     bnd (fetch (fetch_untyped host)
            (updateRef_request env githubToken (new_sha (json newCommitResponse)))) (\<lambda>updateRefResponse.
     if \<not> ok updateRefResponse
     then throw (new_Error (''Failed to update reference: '' @ toString (status updateRefResponse)
                              @ '' - '' @ body_text updateRefResponse))
     else
     ret (result (simplified_commit (json newCommitResponse)) (tree_sha (json treeResponse)))))))))"

subsection \<open>Properties of a tool's trace\<close>

text \<open>
  What holds of the payload \<open>p\<close> and the final world \<open>w\<close> of every invocation. The
  ref is updated by the last call at most, at the branch's URL and without \<open>force\<close>;
  a rejected update gives the error with the status and the text of the response, and
  the host is left in the state in which it answered that update.
\<close>

definition patch_props :: "env \<Rightarrow> 'h host \<Rightarrow> payload \<Rightarrow> ('h, event) world \<Rightarrow> bool" where
  "patch_props env host p w =
     ((\<forall>r a. Fetch r a \<in> set (butlast (trace w)) \<longrightarrow> req_method r \<noteq> PATCH) \<and>
      (\<forall>r a. Fetch r a \<in> set (trace w) \<and> req_method r = PATCH \<longrightarrow>
             req_url r = refUrl env \<and> (\<exists>sha. req_body r = Ref_body sha False)) \<and>
      (\<forall>r st tx. trace w \<noteq> [] \<and> last (trace w) = Fetch r (Answered False st tx) \<and> req_method r = PATCH \<longrightarrow>
             p = Error_payload (''Failed to update reference: '' @ toString st @ '' - '' @ tx) \<and>
             (\<exists>h4 r5. fetch_untyped host r h4 = (Inr r5, outside w) \<and> \<not> ok r5)))"

definition commit_props ::
  "env \<Rightarrow> node \<Rightarrow> 'h host \<Rightarrow> string list \<Rightarrow> payload \<Rightarrow> ('h, event) world \<Rightarrow> bool" where
  "commit_props env node host files p w =
     (patch_props env host p w \<and>
      (\<forall>r a b es. Fetch r a \<in> set (trace w) \<and> req_body r = Tree_body b es \<longrightarrow>
             map te_path es = commit_processedFiles files) \<and>
      ((\<exists>f \<in> set (commit_processedFiles files). isl (readFile node (fullPath env node f))) \<longrightarrow>
             isError p \<and> (\<forall>r a. Fetch r a \<in> set (trace w) \<longrightarrow> req_method r = GET)))"

definition delete_props ::
  "env \<Rightarrow> 'h host \<Rightarrow> string list \<Rightarrow> payload \<Rightarrow> ('h, event) world \<Rightarrow> bool" where
  "delete_props env host paths p w =
     (patch_props env host p w \<and>
      (\<forall>f. ReadFile f \<notin> set (trace w)) \<and>
      (\<forall>r a b es. Fetch r a \<in> set (trace w) \<and> req_body r = Tree_body b es \<longrightarrow>
             (\<exists>ps. delete_processedPaths (process_cwd env) paths = Inr ps \<and> es = delete_treeEntries ps)))"

subsection \<open>A repository host\<close>

text \<open>
  The host is outside the repository. For concrete runs of the tools, here is a host
  after the spec's description of it: refs are named pointers to commits, a tree request
  merges its entries into the base tree (an entry with a null content-reference removes
  its path, and removing a path the base tree does not have changes nothing), and an
  update of a ref without \<open>force\<close> is accepted only when the new commit records the
  ref's current value as a parent. Another writer may move a ref in between: \<open>git_pushes\<close>
  lists, for the request count at which it happens, the branch and its new commit.
\<close>

record git =
  git_repo :: string
  git_refs :: "(string \<times> string) list"
  git_commits :: "(string \<times> string \<times> string list) list"
  git_trees :: "(string \<times> (string \<times> string) list) list"
  git_pushes :: "(nat \<times> string \<times> string) list"
  git_clock :: nat

definition set_ref :: "string \<Rightarrow> string \<Rightarrow> (string \<times> string) list \<Rightarrow> (string \<times> string) list" where
  "set_ref branch sha refs = (branch, sha) # filter (\<lambda>(b, s). b \<noteq> branch) refs"

definition git_tick :: "git \<Rightarrow> git" where
  "git_tick g =
     g\<lparr>git_refs := foldl (\<lambda>refs (t, branch, sha). if t = git_clock g then set_ref branch sha refs else refs)
                       (git_refs g) (git_pushes g),
       git_clock := Suc (git_clock g)\<rparr>"

definition answer :: "bool \<Rightarrow> nat \<Rightarrow> string \<Rightarrow> 'a \<Rightarrow> js_error + 'a response" where
  "answer k st tx j = Inr \<lparr>ok = k, status = st, body_text = tx, json = j\<rparr>"

definition git_find_ref :: "git \<Rightarrow> string \<Rightarrow> (string \<times> string) option" where
  "git_find_ref g url = find (\<lambda>(b, s). url = git_repo g @ ''/git/refs/heads/'' @ b) (git_refs g)"

definition git_get_ref :: "request \<Rightarrow> git \<Rightarrow> (js_error + GitHubRef response) \<times> git" where
  "git_get_ref r g0 =
     (let g = git_tick g0 in
      case git_find_ref g (req_url r) of
        None \<Rightarrow> (answer False 404 ''Not Found'' \<lparr>ref_object_sha = []\<rparr>, g)
      | Some (b, sha) \<Rightarrow> (answer True 200 [] \<lparr>ref_object_sha = sha\<rparr>, g))"

definition git_get_commit :: "request \<Rightarrow> git \<Rightarrow> (js_error + GitHubCommit response) \<times> git" where
  "git_get_commit r g0 =
     (let g = git_tick g0 in
      case find (\<lambda>(sha, c). req_url r = git_repo g @ ''/git/commits/'' @ sha) (git_commits g) of
        None \<Rightarrow> (answer False 404 ''Not Found'' \<lparr>commit_tree_sha = []\<rparr>, g)
      | Some (sha, tree, parents) \<Rightarrow> (answer True 200 [] \<lparr>commit_tree_sha = tree\<rparr>, g))"

definition apply_entry :: "(string \<times> string) list \<Rightarrow> tree_entry \<Rightarrow> (string \<times> string) list" where
  "apply_entry files e =
     (case te_blob e of
        Content c \<Rightarrow> (te_path e, c) # filter (\<lambda>(p, x). p \<noteq> te_path e) files
      | Sha_null \<Rightarrow> filter (\<lambda>(p, x). p \<noteq> te_path e) files)"

definition git_post_tree :: "request \<Rightarrow> git \<Rightarrow> (js_error + GitHubTree response) \<times> git" where
  "git_post_tree r g0 =
     (let g = git_tick g0 in
      case req_body r of
        Tree_body base entries \<Rightarrow>
          (case map_of (git_trees g) base of
             None \<Rightarrow> (answer False 422 ''base_tree is not a valid tree'' \<lparr>tree_sha = []\<rparr>, g)
           | Some files \<Rightarrow>
               let sha = ''tree'' @ toString (length (git_trees g))
               in (answer True 201 [] \<lparr>tree_sha = sha\<rparr>,
                   g\<lparr>git_trees := (sha, foldl apply_entry files entries) # git_trees g\<rparr>))
      | _ \<Rightarrow> (answer False 422 ''Invalid request'' \<lparr>tree_sha = []\<rparr>, g))"

definition no_commit :: GitHubNewCommit where
  "no_commit = \<lparr>new_sha = [], new_message = [], new_author_name = [], new_author_date = []\<rparr>"

definition git_post_commit :: "request \<Rightarrow> git \<Rightarrow> (js_error + GitHubNewCommit response) \<times> git" where
  "git_post_commit r g0 =
     (let g = git_tick g0 in
      case req_body r of
        Commit_body message tree parents \<Rightarrow>
          (case map_of (git_trees g) tree of
             None \<Rightarrow> (answer False 422 ''Tree SHA does not exist'' no_commit, g)
           | Some files \<Rightarrow>
               let sha = ''commit'' @ toString (length (git_commits g))
               in (answer True 201 []
                     \<lparr>new_sha = sha, new_message = message,
                      new_author_name = ''github-actions[bot]'', new_author_date = []\<rparr>,
                   g\<lparr>git_commits := (sha, tree, parents) # git_commits g\<rparr>))
      | _ \<Rightarrow> (answer False 422 ''Invalid request'' no_commit, g))"

definition git_patch_ref :: "request \<Rightarrow> git \<Rightarrow> (js_error + unit response) \<times> git" where
  "git_patch_ref r g0 =
     (let g = git_tick g0 in
      case req_body r of
        Ref_body sha force \<Rightarrow>
          (case git_find_ref g (req_url r) of
             None \<Rightarrow> (answer False 422 ''Reference does not exist'' (), g)
           | Some (b, current) \<Rightarrow>
               (case map_of (git_commits g) sha of
                  None \<Rightarrow> (answer False 422 ''Object does not exist'' (), g)
                | Some (tree, parents) \<Rightarrow>
                    if force \<or> current \<in> set parents
                    then (answer True 200 [] (), g\<lparr>git_refs := set_ref b sha (git_refs g)\<rparr>)
                    else (answer False 422 ''Update is not a fast forward'' (), g)))
      | _ \<Rightarrow> (answer False 422 ''Invalid request'' (), g))"

definition git_host :: "git host" where
  "git_host =
     \<lparr>fetch_GitHubRef = git_get_ref, fetch_GitHubCommit = git_get_commit,
      fetch_GitHubTree = git_post_tree, fetch_GitHubNewCommit = git_post_commit,
      fetch_untyped = git_patch_ref\<rparr>"

text \<open>
  A repository \<open>o/r\<close> whose branch \<open>b\<close> is at commit \<open>c0\<close> with one file, the
  environment of a server for it, started in \<open>/w\<close>, and a working directory with the
  one file \<open>/w/a.txt\<close>.
\<close>

definition git0 :: git where
  "git0 =
     \<lparr>git_repo = ''api/repos/o/r'',
      git_refs = [(''b'', ''c0'')],
      git_commits = [(''c0'', ''t0'', [])],
      git_trees = [(''t0'', [(''README.md'', ''hello'')])],
      git_pushes = [],
      git_clock = 0\<rparr>"

definition env0 :: env where
  "env0 =
     \<lparr>GITHUB_API_URL = ''api'', REPO_OWNER = ''o'', REPO_NAME = ''r'', BRANCH_NAME = ''b'',
      env_REPO_DIR = None, env_GITHUB_TOKEN = Some ''tok'', process_cwd = ''/w''\<rparr>"

definition node0 :: node where
  "node0 =
     \<lparr>readFile = (\<lambda>path. if path = ''/w/a.txt'' then Inr ''A''
                          else Inl (JsError ''Error'' (''ENOENT: no such file or directory, open '' @ path))),
      join = (\<lambda>dir path. dir @ ''/'' @ path),
      first_rejection = (\<lambda>rejections. 0)\<rparr>"

text \<open>
  The same repository with another writer: when two requests have been handled, the
  branch is moved to the commit \<open>x1\<close>, a child of \<open>c0\<close>.
\<close>

definition git_raced :: git where
  "git_raced = git0\<lparr>git_commits := [(''x1'', ''t0'', [''c0'']), (''c0'', ''t0'', [])],
                     git_pushes := [(2, ''b'', ''x1'')]\<rparr>"

section \<open>The prepare entry point (src/entrypoints/prepare.ts)\<close>

subsection \<open>Data\<close>

record repository =
  repository_owner :: string
  repository_repo :: string

record ParsedGitHubContext =
  ctx_repository :: repository
  entityNumber :: nat
  isPR :: bool

record branchInfo =
  defaultBranch :: string
  currentBranch :: string
  claudeBranch :: "string option"

text \<open>An optional string in a condition: \<open>undefined\<close> and the empty string are falsy.\<close>

definition truthy :: "string option \<Rightarrow> bool" where
  "truthy v = (case v of None \<Rightarrow> False | Some s \<Rightarrow> s \<noteq> [])"

text \<open>An element of the pull request list: only its \<open>number\<close> is read.\<close>

record pull =
  pr_number :: nat

subsection \<open>The modules \<open>run\<close> calls\<close>

text \<open>
  The functions \<open>run\<close> imports and the two REST calls it makes are parameters: each
  runs on the outside state \<open>'w\<close> and returns a value or throws. The REST client is
  built from the token alone, so the token stands for it; \<open>'d\<close> is the type of the
  fetched data.
\<close>

record ('w, 'd) ops =
  setupGitHubToken :: "'w \<Rightarrow> (js_error + string) \<times> 'w"
  parseGitHubContext :: "'w \<Rightarrow> (js_error + ParsedGitHubContext) \<times> 'w"
  checkWritePermissions :: "string \<Rightarrow> ParsedGitHubContext \<Rightarrow> 'w \<Rightarrow> (js_error + bool) \<times> 'w"
  checkTriggerAction :: "ParsedGitHubContext \<Rightarrow> 'w \<Rightarrow> (js_error + bool) \<times> 'w"
  checkHumanActor :: "string \<Rightarrow> ParsedGitHubContext \<Rightarrow> 'w \<Rightarrow> (js_error + unit) \<times> 'w"
  createInitialComment :: "string \<Rightarrow> ParsedGitHubContext \<Rightarrow> 'w \<Rightarrow> (js_error + nat) \<times> 'w"
  fetchGitHubData :: "string \<Rightarrow> string \<Rightarrow> string \<Rightarrow> bool \<Rightarrow> 'w \<Rightarrow> (js_error + 'd) \<times> 'w"
  setupBranch :: "string \<Rightarrow> 'd \<Rightarrow> ParsedGitHubContext \<Rightarrow> 'w \<Rightarrow> (js_error + branchInfo) \<times> 'w"
  pulls_list :: "string \<Rightarrow> string \<Rightarrow> string \<Rightarrow> string \<Rightarrow> string \<Rightarrow> 'w \<Rightarrow> (js_error + pull list) \<times> 'w"
  issues_createComment :: "string \<Rightarrow> string \<Rightarrow> string \<Rightarrow> nat \<Rightarrow> string \<Rightarrow> 'w \<Rightarrow> (js_error + nat) \<times> 'w"
  updateTrackingComment :: "string \<Rightarrow> ParsedGitHubContext \<Rightarrow> nat \<Rightarrow> string \<Rightarrow> 'w \<Rightarrow> (js_error + unit) \<times> 'w"
  createPrompt :: "nat \<Rightarrow> string \<Rightarrow> string option \<Rightarrow> 'd \<Rightarrow> ParsedGitHubContext \<Rightarrow> 'w \<Rightarrow> (js_error + unit) \<times> 'w"

record runner_env =
  GITHUB_ACTION_PATH :: "string option"
  GITHUB_WORKSPACE :: "string option"
  runner_cwd :: string

subsection \<open>prepareMcpConfig (src/mcp/install-mcp-server.ts)\<close>

text \<open>
  The argument of \<open>JSON.stringify\<close>: the one server \<open>github_file_ops\<close>. Building and
  serialising this object of strings does not throw, so the \<open>catch\<close> is not reached.
\<close>

record mcp_server =
  mcp_command :: string
  mcp_args :: "string list"
  mcp_env :: "(string \<times> string) list"

definition template :: "string option \<Rightarrow> string" where
  "template v = (case v of None \<Rightarrow> ''undefined'' | Some s \<Rightarrow> s)"

definition prepareMcpConfig :: "runner_env \<Rightarrow> string \<Rightarrow> string \<Rightarrow> string \<Rightarrow> string \<Rightarrow> mcp_server" where
  "prepareMcpConfig renv githubToken owner repo branch =
     \<lparr>mcp_command = ''bun'',
      mcp_args = [''run'', template (GITHUB_ACTION_PATH renv) @ ''/src/mcp/github-file-ops-server.ts''],
      mcp_env = [(''GITHUB_TOKEN'', githubToken),
                 (''REPO_OWNER'', owner),
                 (''REPO_NAME'', repo),
                 (''BRANCH_NAME'', branch),
                 (''REPO_DIR'', if truthy (GITHUB_WORKSPACE renv) then the (GITHUB_WORKSPACE renv)
                                else runner_cwd renv)]\<rparr>"

subsection \<open>run\<close>

text \<open>
  The trace of \<open>run\<close>: one step for each call, with the arguments the claims speak of.
  \<open>console.log\<close>, \<open>core.exportVariable\<close>, \<open>core.setOutput\<close> and \<open>core.setFailed\<close>
  only write to the runner and are taken not to throw.
\<close>

datatype step =
    SetupGitHubToken
  | ParseGitHubContext
  | CheckWritePermissions
  | CheckTriggerAction
  | CheckHumanActor
  | CreateInitialComment
  | FetchGitHubData
  | SetupBranch
  | PullsList string
  | CreateComment nat string
  | UpdateTrackingComment nat string
  | CreatePrompt nat
  | ConsoleLog string
  | ExportVariable string string
  | SetOutput string mcp_server
  | SetFailed string

definition emit :: "'e \<Rightarrow> ('s, 'e, unit) prog" where
  "emit ev = (\<lambda>w. (Inr (), w\<lparr>trace := trace w @ [ev]\<rparr>))"

definition try_catch :: "('s, 'e, 'a) prog \<Rightarrow> (js_error \<Rightarrow> ('s, 'e, 'a) prog) \<Rightarrow> ('s, 'e, 'a) prog" where
  "try_catch f handler = (\<lambda>w. case f w of (Inl e, w') \<Rightarrow> handler e w' | (Inr x, w') \<Rightarrow> (Inr x, w'))"

text \<open>
  The body of the new comment starts with a robot emoji and the log of its creation
  with a check mark; both are written here as their UTF-8 bytes.
\<close>

definition working_body :: string where
  \<open>working_body =
     [CHR 0xF0, CHR 0x9F, CHR 0xA4, CHR 0x96] @ '' Claude is working on this...'' @ [CHR 0x0A, CHR 0x0A]
     @ ''<img src="https://github.com/user-attachments/assets/5ac382c7-e004-429b-8e35-7feb3e8f9c6f" width="14px" height="14px" style="vertical-align: middle; margin-left: 4px;" />''\<close>

text \<open>
  Step 9: the value of \<open>finalCommentId\<close> after the block. It is assigned once, after
  \<open>createComment\<close> has returned, and nothing that follows in the \<open>try\<close> throws: when
  the \<open>catch\<close> runs it still is \<open>commentId\<close>.
\<close>

definition determine_comment_id ::
  "('w, 'd) ops \<Rightarrow> string \<Rightarrow> ParsedGitHubContext \<Rightarrow> branchInfo \<Rightarrow> nat \<Rightarrow> ('w, step, nat) prog" where
  "determine_comment_id ops octokit context branchInfo commentId =
     (if truthy (claudeBranch branchInfo) \<and> \<not> isPR context
      then
        try_catch
          (bnd (call (\<lambda>_. PullsList (repository_owner (ctx_repository context) @ '':'' @ the (claudeBranch branchInfo)))
                  (pulls_list ops octokit
                     (repository_owner (ctx_repository context)) (repository_repo (ctx_repository context))
                     (repository_owner (ctx_repository context) @ '':'' @ the (claudeBranch branchInfo))
                     ''open'')) (\<lambda>prs.
           case prs of
             [] \<Rightarrow> ret commentId
           | pr # _ \<Rightarrow>
               let prNumber = pr_number pr in
               bnd (emit (ConsoleLog (''Found PR #'' @ toString prNumber @ '' for branch ''
                                        @ the (claudeBranch branchInfo) @ '', creating new comment''))) (\<lambda>_.
               bnd (call (\<lambda>_. CreateComment prNumber working_body)
                      (issues_createComment ops octokit
                         (repository_owner (ctx_repository context)) (repository_repo (ctx_repository context))
                         prNumber working_body)) (\<lambda>finalCommentId.
               bnd (emit (ConsoleLog ([CHR 0xE2, CHR 0x9C, CHR 0x85] @ '' Created new PR comment with ID: ''
                                        @ toString finalCommentId))) (\<lambda>_.
               bnd (emit (ExportVariable ''CLAUDE_COMMENT_ID'' (toString finalCommentId))) (\<lambda>_.
               ret finalCommentId))))))
          (\<lambda>error.
             bnd (emit (ConsoleLog (''No PR found for branch '' @ the (claudeBranch branchInfo)
                                      @ '', using original comment''))) (\<lambda>_.
             ret commentId))
      else ret commentId)"

text \<open>Steps 9 to 11 of \<open>run\<close>, once the branch is set up.\<close>

definition run_from_step9 ::
  "('w, 'd) ops \<Rightarrow> runner_env \<Rightarrow> string \<Rightarrow> ParsedGitHubContext \<Rightarrow> nat \<Rightarrow> 'd \<Rightarrow> branchInfo
     \<Rightarrow> ('w, step, unit) prog" where
  "run_from_step9 ops renv githubToken context commentId githubData branchInfo =
     (let octokit = githubToken in
     bnd (determine_comment_id ops octokit context branchInfo commentId) (\<lambda>finalCommentId.
     bnd (if truthy (claudeBranch branchInfo) \<and> finalCommentId = commentId
          then call (\<lambda>_. UpdateTrackingComment commentId (the (claudeBranch branchInfo)))
                 (updateTrackingComment ops octokit context commentId (the (claudeBranch branchInfo)))
          else ret ()) (\<lambda>_.
     bnd (call (\<lambda>_. CreatePrompt finalCommentId)
            (createPrompt ops finalCommentId (defaultBranch branchInfo) (claudeBranch branchInfo)
               githubData context)) (\<lambda>_.
     let mcpConfig = prepareMcpConfig renv githubToken
                       (repository_owner (ctx_repository context)) (repository_repo (ctx_repository context))
                       (currentBranch branchInfo) in
     emit (SetOutput ''mcp_config'' mcpConfig)))))"

text \<open>The body of the \<open>try\<close> of \<open>run\<close>: steps 1 to 8, then the steps above.\<close>

definition run_body :: "('w, 'd) ops \<Rightarrow> runner_env \<Rightarrow> ('w, step, unit) prog" where
  "run_body ops renv =
     bnd (call (\<lambda>_. SetupGitHubToken) (setupGitHubToken ops)) (\<lambda>githubToken.
     let octokit = githubToken in
     bnd (call (\<lambda>_. ParseGitHubContext) (parseGitHubContext ops)) (\<lambda>context.
     bnd (call (\<lambda>_. CheckWritePermissions) (checkWritePermissions ops octokit context))
       (\<lambda>hasWritePermissions.
     if \<not> hasWritePermissions
     then throw (new_Error ''Actor does not have write permissions to the repository'')
     else
     bnd (call (\<lambda>_. CheckTriggerAction) (checkTriggerAction ops context)) (\<lambda>containsTrigger.
     if \<not> containsTrigger
     then emit (ConsoleLog ''No trigger found, skipping remaining steps'')
     else
     bnd (call (\<lambda>_. CheckHumanActor) (checkHumanActor ops octokit context)) (\<lambda>_.
     bnd (call (\<lambda>_. CreateInitialComment) (createInitialComment ops octokit context)) (\<lambda>commentId.
     bnd (call (\<lambda>_. FetchGitHubData)
            (fetchGitHubData ops octokit
               (repository_owner (ctx_repository context) @ ''/'' @ repository_repo (ctx_repository context))
               (toString (entityNumber context))
               (isPR context))) (\<lambda>githubData.
     bnd (call (\<lambda>_. SetupBranch) (setupBranch ops octokit githubData context)) (\<lambda>branchInfo.
     run_from_step9 ops renv githubToken context commentId githubData branchInfo))))))))"

text \<open>
  How the process ends: \<open>run\<close> returns, or the \<open>catch\<close> calls \<open>core.setFailed\<close> and
  \<open>process.exit(1)\<close>.
\<close>

datatype outcome = Returned | Exit nat

definition run :: "('w, 'd) ops \<Rightarrow> runner_env \<Rightarrow> 'w \<Rightarrow> outcome \<times> ('w, step) world" where
  "run ops renv s =
     (case run_body ops renv \<lparr>outside = s, trace = []\<rparr> of
        (Inr u, w) \<Rightarrow> (Returned, w)
      | (Inl error, w) \<Rightarrow>
          (Exit 1, w\<lparr>trace := trace w @ [SetFailed (''Prepare step failed with error: ''
                                                       @ error_toString error)]\<rparr>))"

subsection \<open>Runs that reach step 9\<close>

text \<open>
  Steps 1 to 8 succeed from the state \<open>s\<close>, with the permission granted and the
  trigger found, and leave the state \<open>s8\<close>.
\<close>

definition reaches_step9 ::
  "('w, 'd) ops \<Rightarrow> 'w \<Rightarrow> string \<Rightarrow> ParsedGitHubContext \<Rightarrow> nat \<Rightarrow> 'd \<Rightarrow> branchInfo \<Rightarrow> 'w \<Rightarrow> bool" where
  "reaches_step9 ops s githubToken context commentId githubData branchInfo s8 =
     (\<exists>s1 s2 s3 s4 s5 s6 s7.
        setupGitHubToken ops s = (Inr githubToken, s1) \<and>
        parseGitHubContext ops s1 = (Inr context, s2) \<and>
        checkWritePermissions ops githubToken context s2 = (Inr True, s3) \<and>
        checkTriggerAction ops context s3 = (Inr True, s4) \<and>
        checkHumanActor ops githubToken context s4 = (Inr (), s5) \<and>
        createInitialComment ops githubToken context s5 = (Inr commentId, s6) \<and>
        fetchGitHubData ops githubToken
          (repository_owner (ctx_repository context) @ ''/'' @ repository_repo (ctx_repository context))
          (toString (entityNumber context)) (isPR context) s6 = (Inr githubData, s7) \<and>
        setupBranch ops githubToken githubData context s7 = (Inr branchInfo, s8))"

definition steps_1_to_8 :: "step list" where
  "steps_1_to_8 = [SetupGitHubToken, ParseGitHubContext, CheckWritePermissions, CheckTriggerAction,
                    CheckHumanActor, CreateInitialComment, FetchGitHubData, SetupBranch]"

definition no_trigger_steps :: "step list" where
  "no_trigger_steps = [SetupGitHubToken, ParseGitHubContext, CheckWritePermissions, CheckTriggerAction,
                       ConsoleLog ''No trigger found, skipping remaining steps'']"

subsection \<open>Concrete runs\<close>

text \<open>
  For concrete runs of \<open>run\<close>: the outside state is the list of the comments (id,
  issue or pull request number, body) of the repository \<open>o/r\<close>; the event is on the
  entity 5; a scenario fixes what the called modules answer. \<open>sc_commentId\<close> is the id
  the host gives to the comment created on a pull request (the next free id when it is
  \<open>None\<close>).
\<close>

record scenario =
  sc_permission :: bool
  sc_trigger :: bool
  sc_isPR :: bool
  sc_claudeBranch :: "string option"
  sc_pulls :: "js_error + pull list"
  sc_createComment :: "js_error option"
  sc_commentId :: "nat option"
  sc_updateComment :: "js_error option"

type_synonym comments = "(nat \<times> nat \<times> string) list"

definition context0 :: "bool \<Rightarrow> ParsedGitHubContext" where
  "context0 pr =
     \<lparr>ctx_repository = \<lparr>repository_owner = ''o'', repository_repo = ''r''\<rparr>,
      entityNumber = 5, isPR = pr\<rparr>"

definition scenario_ops :: "scenario \<Rightarrow> (comments, unit) ops" where
  "scenario_ops sc =
     \<lparr>setupGitHubToken = (\<lambda>w. (Inr ''tok'', w)),
      parseGitHubContext = (\<lambda>w. (Inr (context0 (sc_isPR sc)), w)),
      checkWritePermissions = (\<lambda>octokit context w. (Inr (sc_permission sc), w)),
      checkTriggerAction = (\<lambda>context w. (Inr (sc_trigger sc), w)),
      checkHumanActor = (\<lambda>octokit context w. (Inr (), w)),
      createInitialComment = (\<lambda>octokit context w.
        (Inr (Suc (length w)), w @ [(Suc (length w), entityNumber context, ''working'')])),
      fetchGitHubData = (\<lambda>octokit repository prNumber isPR w. (Inr (), w)),
      setupBranch = (\<lambda>octokit githubData context w.
        (Inr \<lparr>defaultBranch = ''main'',
              currentBranch = (case sc_claudeBranch sc of None \<Rightarrow> ''head'' | Some b \<Rightarrow> b),
              claudeBranch = sc_claudeBranch sc\<rparr>, w)),
      pulls_list = (\<lambda>octokit owner repo head state w. (sc_pulls sc, w)),
      issues_createComment = (\<lambda>octokit owner repo issue_number body w.
        case sc_createComment sc of
          Some e \<Rightarrow> (Inl e, w)
        | None \<Rightarrow>
            (case sc_commentId sc of
               None \<Rightarrow> (Inr (Suc (length w)), w @ [(Suc (length w), issue_number, body)])
             | Some i \<Rightarrow> (Inr i, w @ [(i, issue_number, body)]))),
      updateTrackingComment = (\<lambda>octokit context commentId branch w.
        case sc_updateComment sc of
          Some e \<Rightarrow> (Inl e, w)
        | None \<Rightarrow>
            (Inr (), map (\<lambda>(i, n, b). if i = commentId then (i, n, b @ '' on '' @ branch) else (i, n, b)) w)),
      createPrompt = (\<lambda>commentId defaultBranch claudeBranch githubData context w. (Inr (), w))\<rparr>"

definition renv0 :: runner_env where
  "renv0 = \<lparr>GITHUB_ACTION_PATH = Some ''/action'', GITHUB_WORKSPACE = Some ''/w'', runner_cwd = ''/w''\<rparr>"

text \<open>An issue event by a permitted actor, with the trigger, a new branch and no pull request.\<close>

definition sc_issue :: scenario where
  "sc_issue = \<lparr>sc_permission = True, sc_trigger = True, sc_isPR = False,
               sc_claudeBranch = Some ''claude/issue-5'', sc_pulls = Inr [], sc_createComment = None,
               sc_commentId = None, sc_updateComment = None\<rparr>"

section \<open>Facts about the tools\<close>

lemma err_message_new_Error [simp]: "err_message (new_Error m) = m"
  by (simp add: new_Error_def)

lemmas prog_defs = bnd_def ret_def throw_def call_def fetch_def tool_def emit_def try_catch_def

lemmas request_defs = getRef_request_def getCommit_request_def createTree_request_def
  createCommit_request_def updateRef_request_def

lemma bnd_ret: "bnd (ret x) g = g x"
  by (simp add: bnd_def ret_def)

lemma Fetch_notin_ReadFile [simp]: "Fetch r a \<notin> set (butlast (map (\<lambda>x. ReadFile (g x)) xs))"
  by (auto dest: in_set_butlastD)

lemma last_ReadFile [simp]: "xs \<noteq> [] \<Longrightarrow> last (map (\<lambda>x. ReadFile (g x)) xs) \<noteq> Fetch r a"
  by (simp add: last_map)

lemma map_Inr_projr: "\<forall>x \<in> set rs. \<not> isl x \<Longrightarrow> map Inr (map projr rs) = rs"
  by (induction rs) auto

lemma Promise_all_Inr: "Promise_all node rs = Inr xs \<Longrightarrow> rs = map Inr xs"
  using map_Inr_projr[of rs]
  by (auto simp: Promise_all_def Let_def filter_empty_conv split: if_splits)

lemma read_paths:
  "map (\<lambda>filePath. case rd filePath of Inl e \<Rightarrow> Inl e
         | Inr content \<Rightarrow> Inr \<lparr>te_path = filePath, te_mode = m, te_type = t, te_blob = Content content\<rparr>) fs
     = map Inr xs \<Longrightarrow> map te_path xs = fs"
  by (induction fs arbitrary: xs) (auto split: sum.splits)

lemma read_all_Inr:
  "map (\<lambda>filePath. case rd filePath of Inl e \<Rightarrow> Inl e
         | Inr content \<Rightarrow> Inr (mk filePath content)) fs
     = map Inr xs \<Longrightarrow> f \<in> set fs \<Longrightarrow> \<not> isl (rd f)"
  by (induction fs arbitrary: xs) (auto split: sum.splits)

text \<open>Every invocation of \<open>commit_files\<close> has the properties collected above.\<close>

lemma commit_files_props:
  assumes "commit_files env node host files message h = (p, w)"
  shows "commit_props env node host files p w"
  using assms
  apply (clarsimp simp: commit_files_def commit_files_body_def prog_defs require_token_def
           read_treeEntries_def Let_def answer_of_def
         split: prod.splits sum.splits option.splits if_splits)
                  apply (auto simp: commit_props_def patch_props_def request_defs isError_def butlast_append
                      dest!: Promise_all_Inr dest: read_paths read_all_Inr)
  done

text \<open>And every invocation of \<open>delete_files\<close> has these.\<close>

lemma delete_files_props:
  assumes "delete_files env host paths message h = (p, w)"
  shows "delete_props env host paths p w"
  using assms
  apply (clarsimp simp: delete_files_def delete_files_body_def prog_defs require_token_def
           Let_def answer_of_def
         split: prod.splits sum.splits option.splits if_splits)
                 apply (auto simp: delete_props_def patch_props_def request_defs isError_def butlast_append)
  done

lemma in_set_last: "x \<in> set xs \<Longrightarrow> x \<notin> set (butlast xs) \<Longrightarrow> last xs = x"
  by (induction xs) (auto split: if_splits)

lemma patch_props_last:
  assumes "patch_props env host p w" and "Fetch r a \<in> set (trace w)" and "req_method r = PATCH"
  shows "req_url r = refUrl env \<and> (\<exists>sha. req_body r = Ref_body sha False) \<and> last (trace w) = Fetch r a \<and>
         Fetch r a \<notin> set (butlast (trace w)) \<and>
         (\<forall>st tx. a = Answered False st tx \<longrightarrow>
            p = Error_payload (''Failed to update reference: '' @ toString st @ '' - '' @ tx) \<and>
            (\<exists>h4 r5. fetch_untyped host r h4 = (Inr r5, outside w) \<and> \<not> ok r5))"
proof -
  from assms have nb: "Fetch r a \<notin> set (butlast (trace w))"
    unfolding patch_props_def by blast
  with assms(2) have l: "last (trace w) = Fetch r a" by (rule in_set_last)
  from assms(2) have ne: "trace w \<noteq> []" by auto
  from assms l ne nb show ?thesis
    unfolding patch_props_def by blast
qed

lemma startsWith_slash: "startsWith p ''/'' \<longleftrightarrow> (\<exists>rest. p = CHR ''/'' # rest)"
  by (cases p) (auto simp: startsWith_def)

lemma commit_processedFiles_strip:
  "commit_processedFiles files =
     map (\<lambda>p. case p of [] \<Rightarrow> [] | c # rest \<Rightarrow> if c = CHR ''/'' then rest else p) files"
  unfolding commit_processedFiles_def
  by (rule map_cong) (auto simp: startsWith_def slice_def split: list.splits)

lemma delete_processedPaths_Inr:
  "delete_processedPaths cwd paths = Inr ps \<Longrightarrow>
     ps = map (\<lambda>p. if startsWith p ''/'' then drop (length cwd + 1) p else p) paths \<and>
     (\<forall>p \<in> set paths. startsWith p ''/'' \<longrightarrow> startsWith p cwd)"
  by (induction paths arbitrary: ps)
     (auto simp: delete_processedPath_def slice_def split: sum.splits if_splits)

lemma delete_processedPaths_foreign:
  "p \<in> set paths \<Longrightarrow> startsWith p ''/'' \<Longrightarrow> \<not> startsWith p cwd \<Longrightarrow> isl (delete_processedPaths cwd paths)"
  using delete_processedPaths_Inr[of cwd paths] by (cases "delete_processedPaths cwd paths") auto

text \<open>Rules to evaluate the tools on the host above.\<close>

lemmas url_defs = refUrl_def commitUrl_def treeUrl_def newCommitUrl_def get_headers_def post_headers_def

lemmas git_defs = git_host_def git_get_ref_def git_get_commit_def git_post_tree_def git_post_commit_def
  git_patch_ref_def git_tick_def git_find_ref_def set_ref_def answer_def apply_entry_def no_commit_def
  git0_def git_raced_def env0_def node0_def

lemmas tool_defs = commit_files_def commit_files_body_def delete_files_def delete_files_body_def
  prog_defs require_token_def read_treeEntries_def commit_processedFiles_def fullPath_def REPO_DIR_def
  Promise_all_def delete_processedPath_def delete_treeEntries_def simplified_commit_def
  startsWith_def slice_def Let_def answer_of_def request_defs url_defs

lemma toString_small:
  "toString 0 = ''0''" "toString (Suc 0) = ''1''" "toString (Suc (Suc 0)) = ''2''" "toString 1 = ''1''"
  "toString 5 = ''5''" "toString 9 = ''9''" "toString 422 = ''422''"
  by (simp_all add: toString.simps)


section \<open>The claims about the file operations server\<close>

text \<open>
  C1. In every invocation of \<open>commit_files\<close> and of \<open>delete_files\<close>, a request that
  updates the branch ref goes to the ref's URL with \<open>force = false\<close> and is the last
  call of the invocation, and no call before it updates a ref. When the host answers it
  with a rejection, the tool returns the error payload that carries the status and the
  text of the rejection, and the host is left in the state in which it answered the
  update: after a rejection the tool does nothing more, and the ref stays where the
  host left it.
\<close>

theorem ref_update_fast_forward_only:
  "\<forall>res \<in> {commit_files env node host files message h, delete_files env host paths message h}.
     \<forall>r a. Fetch r a \<in> set (trace (snd res)) \<and> req_method r = PATCH \<longrightarrow>
       req_url r = refUrl env \<and> (\<exists>sha. req_body r = Ref_body sha False) \<and>
       last (trace (snd res)) = Fetch r a \<and> Fetch r a \<notin> set (butlast (trace (snd res))) \<and>
       (\<forall>st tx. a = Answered False st tx \<longrightarrow>
          fst res = Error_payload (''Failed to update reference: '' @ toString st @ '' - '' @ tx) \<and>
          (\<exists>h4 r5. fetch_untyped host r h4 = (Inr r5, outside (snd res)) \<and> \<not> ok r5))"
proof -
  have c: "patch_props env host (fst (commit_files env node host files message h))
             (snd (commit_files env node host files message h))"
    using commit_files_props[of env node host files message h] by (simp add: commit_props_def prod_eq_iff)
  have d: "patch_props env host (fst (delete_files env host paths message h))
             (snd (delete_files env host paths message h))"
    using delete_files_props[of env host paths message h] by (simp add: delete_props_def prod_eq_iff)
  show ?thesis
    using patch_props_last[OF c] patch_props_last[OF d] by blast
qed

text \<open>
  On the host with the other writer: the branch moves to \<open>x1\<close> after the tool has
  read it, the update is rejected, the tool returns the rejection, and the branch still
  points at \<open>x1\<close>.
\<close>

theorem ref_update_fast_forward_only_witness:
  "fst (commit_files env0 node0 git_host [''a.txt''] ''m'' git_raced)
     = Error_payload ''Failed to update reference: 422 - Update is not a fast forward''
   \<and> git_refs (outside (snd (commit_files env0 node0 git_host [''a.txt''] ''m'' git_raced))) = [(''b'', ''x1'')]"
proof -
  have mem: "Fetch (updateRef_request env0 ''tok'' ''commit2'') (Answered False 422 ''Update is not a fast forward'')
               \<in> set (trace (snd (commit_files env0 node0 git_host [''a.txt''] ''m'' git_raced)))"
    by (simp add: tool_defs git_defs toString_small)
  have refs: "git_refs (outside (snd (commit_files env0 node0 git_host [''a.txt''] ''m'' git_raced))) = [(''b'', ''x1'')]"
    by (simp add: tool_defs git_defs toString_small)
  have m: "req_method (updateRef_request env0 ''tok'' ''commit2'') = PATCH"
    by (simp add: updateRef_request_def)
  from ref_update_fast_forward_only[of env0 node0 git_host "[''a.txt'']" "''m''" git_raced "[]"] mem m
  have "fst (commit_files env0 node0 git_host [''a.txt''] ''m'' git_raced)
          = Error_payload (''Failed to update reference: '' @ toString 422 @ '' - '' @ ''Update is not a fast forward'')"
    by blast
  with refs show ?thesis by (simp add: toString_small)
qed

text \<open>
  C2. When the read of one of the files of a \<open>commit_files\<close> request fails, the tool
  returns an error payload, and every request of the invocation is a \<open>GET\<close>: no tree,
  no commit and no update of the ref is requested.
\<close>

theorem commit_files_unreadable_file:
  assumes "\<exists>f \<in> set (commit_processedFiles files). isl (readFile node (fullPath env node f))"
  shows "isError (fst (commit_files env node host files message h)) \<and>
         (\<forall>r a. Fetch r a \<in> set (trace (snd (commit_files env node host files message h))) \<longrightarrow>
                req_method r = GET)"
  using commit_files_props[of env node host files message h] assms
  by (simp add: commit_props_def prod_eq_iff)

text \<open>With \<open>b.txt\<close> missing, the host keeps its one commit and the branch stays at it.\<close>

theorem commit_files_unreadable_file_witness:
  "isError (fst (commit_files env0 node0 git_host [''a.txt'', ''b.txt''] ''m'' git0))
   \<and> git_refs (outside (snd (commit_files env0 node0 git_host [''a.txt'', ''b.txt''] ''m'' git0))) = [(''b'', ''c0'')]
   \<and> git_commits (outside (snd (commit_files env0 node0 git_host [''a.txt'', ''b.txt''] ''m'' git0)))
       = [(''c0'', ''t0'', [])]"
proof -
  have "\<exists>f \<in> set (commit_processedFiles [''a.txt'', ''b.txt'']). isl (readFile node0 (fullPath env0 node0 f))"
    by (simp add: commit_processedFiles_def fullPath_def REPO_DIR_def startsWith_def slice_def env0_def node0_def)
  from commit_files_unreadable_file[OF this, of git_host "''m''" git0]
  show ?thesis
    by (simp add: tool_defs git_defs toString_small)
qed

text \<open>
  C3, as it is written, fails: \<open>delete_files\<close> in \<open>/w\<close> turns \<open>/w/README.md\<close> into
  the tree entry path \<open>README.md\<close>, which is not the path less one separator; and
  \<open>commit_files\<close> turns \<open>//w/a.txt\<close> into \<open>/w/a.txt\<close>, which still starts with a
  separator.
\<close>

theorem tree_entry_paths_counterexample:
  "Fetch (createTree_request env0 ''tok'' ''t0''
            [\<lparr>te_path = ''README.md'', te_mode = ''100644'', te_type = ''blob'', te_blob = Sha_null\<rparr>])
         (Answered True 201 [])
     \<in> set (trace (snd (delete_files env0 git_host [''/w/README.md''] ''m'' git0)))
   \<and> ''README.md'' \<noteq> drop 1 ''/w/README.md''
   \<and> Fetch (createTree_request env0 ''tok'' ''t0''
            [\<lparr>te_path = ''/w/a.txt'', te_mode = ''100644'', te_type = ''blob'', te_blob = Content ''A''\<rparr>])
         (Answered True 201 [])
     \<in> set (trace (snd (commit_files env0 node0 git_host [''//w/a.txt''] ''m'' git0)))
   \<and> startsWith ''/w/a.txt'' ''/''"
  by (simp add: tool_defs git_defs toString_small)

text \<open>
  C3, amended. The paths of the entries of a tree request of \<open>commit_files\<close> are the
  requested paths, each less one leading separator when it starts with one. Those of a
  tree request of \<open>delete_files\<close> are the requested paths, each less the first
  \<open>cwd.length + 1\<close> characters when it starts with a separator; and such a request is
  made only when every requested path that starts with a separator starts with the
  working directory.
\<close>

theorem tree_entry_paths:
  "(\<forall>r a b es. Fetch r a \<in> set (trace (snd (commit_files env node host files message h))) \<and>
                req_body r = Tree_body b es \<longrightarrow>
       map te_path es = map (\<lambda>p. case p of [] \<Rightarrow> [] | c # rest \<Rightarrow> if c = CHR ''/'' then rest else p) files)
   \<and> (\<forall>r a b es. Fetch r a \<in> set (trace (snd (delete_files env host paths message h))) \<and>
                req_body r = Tree_body b es \<longrightarrow>
       map te_path es = map (\<lambda>p. if startsWith p ''/'' then drop (length (process_cwd env) + 1) p else p) paths \<and>
       (\<forall>p \<in> set paths. startsWith p ''/'' \<longrightarrow> startsWith p (process_cwd env)))"
proof -
  have c: "commit_props env node host files (fst (commit_files env node host files message h))
             (snd (commit_files env node host files message h))"
    using commit_files_props[of env node host files message h] by (simp add: prod_eq_iff)
  have d: "delete_props env host paths (fst (delete_files env host paths message h))
             (snd (delete_files env host paths message h))"
    using delete_files_props[of env host paths message h] by (simp add: prod_eq_iff)
  have te: "map te_path (delete_treeEntries ps) = ps" for ps
    by (simp add: delete_treeEntries_def comp_def)
  show ?thesis
  proof (intro conjI allI impI)
    fix r a b es
    assume "Fetch r a \<in> set (trace (snd (commit_files env node host files message h))) \<and> req_body r = Tree_body b es"
    with c show "map te_path es = map (\<lambda>p. case p of [] \<Rightarrow> [] | c # rest \<Rightarrow> if c = CHR ''/'' then rest else p) files"
      unfolding commit_props_def commit_processedFiles_strip[symmetric] by blast
  next
    fix r a b es
    assume "Fetch r a \<in> set (trace (snd (delete_files env host paths message h))) \<and> req_body r = Tree_body b es"
    with d obtain ps where ps: "delete_processedPaths (process_cwd env) paths = Inr ps" "es = delete_treeEntries ps"
      unfolding delete_props_def by blast
    from delete_processedPaths_Inr[OF ps(1)] ps(2) te
    show "map te_path es = map (\<lambda>p. if startsWith p ''/'' then drop (length (process_cwd env) + 1) p else p) paths"
      by simp
    from delete_processedPaths_Inr[OF ps(1)]
    show "\<forall>p \<in> set paths. startsWith p ''/'' \<longrightarrow> startsWith p (process_cwd env)"
      by simp
  qed
qed

theorem tree_entry_paths_witness:
  "Fetch (createTree_request env0 ''tok'' ''t0''
            [\<lparr>te_path = ''a.txt'', te_mode = ''100644'', te_type = ''blob'', te_blob = Content ''A''\<rparr>])
         (Answered True 201 [])
     \<in> set (trace (snd (commit_files env0 node0 git_host [''/a.txt''] ''m'' git0)))
   \<and> map te_path [\<lparr>te_path = ''a.txt'', te_mode = ''100644'', te_type = ''blob'', te_blob = Content ''A''\<rparr>]
       = [''a.txt'']
   \<and> Fetch (createTree_request env0 ''tok'' ''t0''
            [\<lparr>te_path = ''README.md'', te_mode = ''100644'', te_type = ''blob'', te_blob = Sha_null\<rparr>])
         (Answered True 201 [])
     \<in> set (trace (snd (delete_files env0 git_host [''/w/README.md''] ''m'' git0)))
   \<and> startsWith ''/w/README.md'' (process_cwd env0)"
proof -
  let ?e = "\<lparr>te_path = ''a.txt'', te_mode = ''100644'', te_type = ''blob'', te_blob = Content ''A''\<rparr>"
  let ?d = "\<lparr>te_path = ''README.md'', te_mode = ''100644'', te_type = ''blob'', te_blob = Sha_null\<rparr>"
  have c: "Fetch (createTree_request env0 ''tok'' ''t0'' [?e]) (Answered True 201 [])
             \<in> set (trace (snd (commit_files env0 node0 git_host [''/a.txt''] ''m'' git0)))"
    by (simp add: tool_defs git_defs toString_small)
  have d: "Fetch (createTree_request env0 ''tok'' ''t0'' [?d]) (Answered True 201 [])
             \<in> set (trace (snd (delete_files env0 git_host [''/w/README.md''] ''m'' git0)))"
    by (simp add: tool_defs git_defs toString_small)
  have b: "req_body (createTree_request env0 ''tok'' ''t0'' es) = Tree_body ''t0'' es" for es
    by (simp add: createTree_request_def)
  note t = tree_entry_paths[of env0 node0 git_host "[''/a.txt'']" "''m''" git0 "[''/w/README.md'']"]
  from t c b have 1: "map te_path [?e] = [''a.txt'']"
    by fastforce
  from t d b have 2: "\<forall>p \<in> set [''/w/README.md'']. startsWith p ''/'' \<longrightarrow> startsWith p (process_cwd env0)"
    by blast
  have "startsWith ''/w/README.md'' ''/''"
    by (simp add: startsWith_def)
  with 2 have 3: "startsWith ''/w/README.md'' (process_cwd env0)"
    by simp
  from c d 1 3 show ?thesis by blast
qed

text \<open>
  C8. \<open>delete_files\<close> and \<open>commit_files\<close> are the same protocol; they differ in
  step 3, where \<open>commit_files\<close> reads the local files and \<open>delete_files\<close> takes the
  entries from the processed paths, each with a null content-reference, and reads no
  file. Nothing is asked about the base tree but its identifier: when the host accepts
  the five requests, the tool returns the new commit, whatever the base tree holds.
\<close>

theorem delete_files_same_protocol:
  assumes "env_GITHUB_TOKEN env = Some tok" and "tok \<noteq> []"
    and "delete_processedPaths (process_cwd env) paths = Inr ps"
    and "fetch_GitHubRef host (getRef_request env tok) h = (Inr r1, h1)" and "ok r1"
    and "fetch_GitHubCommit host (getCommit_request env tok (ref_object_sha (json r1))) h1 = (Inr r2, h2)"
    and "ok r2"
    and "fetch_GitHubTree host
           (createTree_request env tok (commit_tree_sha (json r2))
              (map (\<lambda>path. \<lparr>te_path = path, te_mode = ''100644'', te_type = ''blob'', te_blob = Sha_null\<rparr>) ps))
           h2 = (Inr r3, h3)"
    and "ok r3"
    and "fetch_GitHubNewCommit host
           (createCommit_request env tok message (tree_sha (json r3)) (ref_object_sha (json r1))) h3 = (Inr r4, h4)"
    and "ok r4"
    and "fetch_untyped host (updateRef_request env tok (new_sha (json r4))) h4 = (Inr r5, h5)"
    and "ok r5"
  shows "delete_files_body env host paths message =
           bnd (require_token env) (\<lambda>githubToken.
           bnd (case delete_processedPaths (process_cwd env) paths of Inl e \<Rightarrow> throw e | Inr ps \<Rightarrow> ret ps)
             (\<lambda>processedPaths.
           commit_protocol env host githubToken (ret (delete_treeEntries processedPaths)) message
             (\<lambda>c t. Deleted c processedPaths t)))
       \<and> commit_files_body env node host files message =
           bnd (require_token env) (\<lambda>githubToken.
           commit_protocol env host githubToken (read_treeEntries env node (commit_processedFiles files)) message
             (\<lambda>c t. Committed c (commit_processedFiles files) t))
       \<and> (\<forall>f. ReadFile f \<notin> set (trace (snd (delete_files env host paths message h))))
       \<and> delete_files env host paths message h =
           (Deleted (simplified_commit (json r4)) ps (tree_sha (json r3)),
            \<lparr>outside = h5,
             trace = [Fetch (getRef_request env tok) (Answered True (status r1) (body_text r1)),
                      Fetch (getCommit_request env tok (ref_object_sha (json r1)))
                        (Answered True (status r2) (body_text r2)),
                      Fetch (createTree_request env tok (commit_tree_sha (json r2))
                               (map (\<lambda>path. \<lparr>te_path = path, te_mode = ''100644'', te_type = ''blob'',
                                             te_blob = Sha_null\<rparr>) ps))
                        (Answered True (status r3) (body_text r3)),
                      Fetch (createCommit_request env tok message (tree_sha (json r3)) (ref_object_sha (json r1)))
                        (Answered True (status r4) (body_text r4)),
                      Fetch (updateRef_request env tok (new_sha (json r4)))
                        (Answered True (status r5) (body_text r5))]\<rparr>)"
proof (intro conjI)
  show "delete_files_body env host paths message =
           bnd (require_token env) (\<lambda>githubToken.
           bnd (case delete_processedPaths (process_cwd env) paths of Inl e \<Rightarrow> throw e | Inr ps \<Rightarrow> ret ps)
             (\<lambda>processedPaths.
           commit_protocol env host githubToken (ret (delete_treeEntries processedPaths)) message
             (\<lambda>c t. Deleted c processedPaths t)))"
    by (simp add: delete_files_body_def commit_protocol_def Let_def bnd_ret cong: if_cong)
  show "commit_files_body env node host files message =
           bnd (require_token env) (\<lambda>githubToken.
           commit_protocol env host githubToken (read_treeEntries env node (commit_processedFiles files)) message
             (\<lambda>c t. Committed c (commit_processedFiles files) t))"
    by (simp add: commit_files_body_def commit_protocol_def Let_def cong: if_cong)
  show "\<forall>f. ReadFile f \<notin> set (trace (snd (delete_files env host paths message h)))"
    using delete_files_props[of env host paths message h] by (simp add: delete_props_def prod_eq_iff)
  from assms
  show "delete_files env host paths message h =
           (Deleted (simplified_commit (json r4)) ps (tree_sha (json r3)),
            \<lparr>outside = h5,
             trace = [Fetch (getRef_request env tok) (Answered True (status r1) (body_text r1)),
                      Fetch (getCommit_request env tok (ref_object_sha (json r1)))
                        (Answered True (status r2) (body_text r2)),
                      Fetch (createTree_request env tok (commit_tree_sha (json r2))
                               (map (\<lambda>path. \<lparr>te_path = path, te_mode = ''100644'', te_type = ''blob'',
                                             te_blob = Sha_null\<rparr>) ps))
                        (Answered True (status r3) (body_text r3)),
                      Fetch (createCommit_request env tok message (tree_sha (json r3)) (ref_object_sha (json r1)))
                        (Answered True (status r4) (body_text r4)),
                      Fetch (updateRef_request env tok (new_sha (json r4)))
                        (Answered True (status r5) (body_text r5))]\<rparr>)"
    by (simp add: delete_files_def delete_files_body_def prog_defs require_token_def
          delete_treeEntries_def Let_def answer_of_def)
qed


text \<open>
  Deleting \<open>nope.txt\<close>, which the base tree does not have: the host accepts the
  requests, the new commit has the parent \<open>c0\<close> and a tree with the files of the base
  tree, and the branch points at it.
\<close>

theorem delete_files_same_protocol_witness:
  "fst (delete_files env0 git_host [''nope.txt''] ''m'' git0)
     = Deleted \<lparr>cs_sha = ''commit1'', cs_message = ''m'', cs_author = ''github-actions[bot]'', cs_date = []\<rparr>
         [''nope.txt''] ''tree1''
   \<and> git_refs (outside (snd (delete_files env0 git_host [''nope.txt''] ''m'' git0))) = [(''b'', ''commit1'')]
   \<and> git_commits (outside (snd (delete_files env0 git_host [''nope.txt''] ''m'' git0)))
       = [(''commit1'', ''tree1'', [''c0'']), (''c0'', ''t0'', [])]
   \<and> git_trees (outside (snd (delete_files env0 git_host [''nope.txt''] ''m'' git0)))
       = [(''tree1'', [(''README.md'', ''hello'')]), (''t0'', [(''README.md'', ''hello'')])]"
proof -
  let ?r1 = "\<lparr>ok = True, status = 200, body_text = [], json = \<lparr>ref_object_sha = ''c0''\<rparr>\<rparr>"
  let ?h1 = "git0\<lparr>git_clock := 1\<rparr>"
  let ?r2 = "\<lparr>ok = True, status = 200, body_text = [], json = \<lparr>commit_tree_sha = ''t0''\<rparr>\<rparr>"
  let ?h2 = "git0\<lparr>git_clock := 2\<rparr>"
  let ?r3 = "\<lparr>ok = True, status = 201, body_text = [], json = \<lparr>tree_sha = ''tree1''\<rparr>\<rparr>"
  let ?h3 = "git0\<lparr>git_trees := [(''tree1'', [(''README.md'', ''hello'')]), (''t0'', [(''README.md'', ''hello'')])],
                  git_clock := 3\<rparr>"
  let ?r4 = "\<lparr>ok = True, status = 201, body_text = [],
              json = \<lparr>new_sha = ''commit1'', new_message = ''m'',
                      new_author_name = ''github-actions[bot]'', new_author_date = []\<rparr>\<rparr>"
  let ?h4 = "?h3\<lparr>git_commits := [(''commit1'', ''tree1'', [''c0'']), (''c0'', ''t0'', [])], git_clock := 4\<rparr>"
  let ?r5 = "\<lparr>ok = True, status = 200, body_text = [], json = ()\<rparr>"
  let ?h5 = "?h4\<lparr>git_refs := [(''b'', ''commit1'')], git_clock := 5\<rparr>"
  have tok: "env_GITHUB_TOKEN env0 = Some ''tok''" "''tok'' \<noteq> []"
    by (simp_all add: env0_def)
  have ps: "delete_processedPaths (process_cwd env0) [''nope.txt''] = Inr [''nope.txt'']"
    by (simp add: delete_processedPath_def startsWith_def)
  have 1: "fetch_GitHubRef git_host (getRef_request env0 ''tok'') git0 = (Inr ?r1, ?h1)"
    by (simp add: request_defs url_defs git_defs Let_def)
  have 2: "fetch_GitHubCommit git_host (getCommit_request env0 ''tok'' (ref_object_sha (json ?r1))) ?h1
             = (Inr ?r2, ?h2)"
    by (simp add: request_defs url_defs git_defs Let_def)
  have 3: "fetch_GitHubTree git_host
             (createTree_request env0 ''tok'' (commit_tree_sha (json ?r2))
                (map (\<lambda>path. \<lparr>te_path = path, te_mode = ''100644'', te_type = ''blob'', te_blob = Sha_null\<rparr>)
                   [''nope.txt'']))
             ?h2 = (Inr ?r3, ?h3)"
    by (simp add: request_defs url_defs git_defs Let_def toString_small)
  have 4: "fetch_GitHubNewCommit git_host
             (createCommit_request env0 ''tok'' ''m'' (tree_sha (json ?r3)) (ref_object_sha (json ?r1))) ?h3
             = (Inr ?r4, ?h4)"
    by (simp add: request_defs url_defs git_defs Let_def toString_small)
  have 5: "fetch_untyped git_host (updateRef_request env0 ''tok'' (new_sha (json ?r4))) ?h4 = (Inr ?r5, ?h5)"
    by (simp add: request_defs url_defs git_defs Let_def)
  from delete_files_same_protocol[OF tok ps 1 _ 2 _ 3 _ 4 _ 5, of node0 "[]"]
  have "delete_files env0 git_host [''nope.txt''] ''m'' git0 =
          (Deleted (simplified_commit (json ?r4)) [''nope.txt''] (tree_sha (json ?r3)),
           \<lparr>outside = ?h5,
            trace = [Fetch (getRef_request env0 ''tok'') (Answered True (status ?r1) (body_text ?r1)),
                     Fetch (getCommit_request env0 ''tok'' (ref_object_sha (json ?r1)))
                       (Answered True (status ?r2) (body_text ?r2)),
                     Fetch (createTree_request env0 ''tok'' (commit_tree_sha (json ?r2))
                              (map (\<lambda>path. \<lparr>te_path = path, te_mode = ''100644'', te_type = ''blob'',
                                            te_blob = Sha_null\<rparr>) [''nope.txt'']))
                       (Answered True (status ?r3) (body_text ?r3)),
                     Fetch (createCommit_request env0 ''tok'' ''m'' (tree_sha (json ?r3)) (ref_object_sha (json ?r1)))
                       (Answered True (status ?r4) (body_text ?r4)),
                     Fetch (updateRef_request env0 ''tok'' (new_sha (json ?r4)))
                       (Answered True (status ?r5) (body_text ?r5))]\<rparr>)"
    by simp
  then show ?thesis
    by (simp add: simplified_commit_def git0_def)
qed

text \<open>
  C9. When a path of a \<open>delete_files\<close> request starts with a separator and does not
  start with the working directory, the tool returns an error payload and has made no
  call: the host's state is the one it started on and the trace is empty.
\<close>

theorem delete_files_foreign_absolute_path:
  assumes "\<exists>p \<in> set paths. startsWith p ''/'' \<and> \<not> startsWith p (process_cwd env)"
  shows "isError (fst (delete_files env host paths message h)) \<and>
         snd (delete_files env host paths message h) = \<lparr>outside = h, trace = []\<rparr>"
proof -
  from assms obtain e where "delete_processedPaths (process_cwd env) paths = Inl e"
    using delete_processedPaths_foreign[of _ paths "process_cwd env"] by (auto simp: isl_def)
  then show ?thesis
    by (simp add: delete_files_def delete_files_body_def prog_defs require_token_def isError_def Let_def
             split: option.splits)
qed

theorem delete_files_foreign_absolute_path_witness:
  "isError (fst (delete_files env0 git_host [''README.md'', ''/x/README.md''] ''m'' git0)) \<and>
   snd (delete_files env0 git_host [''README.md'', ''/x/README.md''] ''m'' git0) = \<lparr>outside = git0, trace = []\<rparr>"
proof -
  have "\<exists>p \<in> set [''README.md'', ''/x/README.md'']. startsWith p ''/'' \<and> \<not> startsWith p (process_cwd env0)"
    by (simp add: startsWith_def env0_def)
  from delete_files_foreign_absolute_path[OF this] show ?thesis .
qed

text \<open>
  C10. \<open>commit_files\<close> with no files, a token and a host that accepts the requests:
  the tool asks for the ref and its commit, submits a tree request with no entries on the
  base tree, creates a commit whose parent is the commit the ref pointed at, updates the
  ref to it, and returns the success payload with an empty list of files. No file is
  read.
\<close>

theorem commit_files_empty_list:
  assumes "env_GITHUB_TOKEN env = Some tok" and "tok \<noteq> []"
    and "fetch_GitHubRef host (getRef_request env tok) h = (Inr r1, h1)" and "ok r1"
    and "fetch_GitHubCommit host (getCommit_request env tok (ref_object_sha (json r1))) h1 = (Inr r2, h2)"
    and "ok r2"
    and "fetch_GitHubTree host (createTree_request env tok (commit_tree_sha (json r2)) []) h2 = (Inr r3, h3)"
    and "ok r3"
    and "fetch_GitHubNewCommit host
           (createCommit_request env tok message (tree_sha (json r3)) (ref_object_sha (json r1))) h3 = (Inr r4, h4)"
    and "ok r4"
    and "fetch_untyped host (updateRef_request env tok (new_sha (json r4))) h4 = (Inr r5, h5)"
    and "ok r5"
  shows "commit_files env node host [] message h =
           (Committed (simplified_commit (json r4)) [] (tree_sha (json r3)),
            \<lparr>outside = h5,
             trace = [Fetch (getRef_request env tok) (Answered True (status r1) (body_text r1)),
                      Fetch (getCommit_request env tok (ref_object_sha (json r1)))
                        (Answered True (status r2) (body_text r2)),
                      Fetch (createTree_request env tok (commit_tree_sha (json r2)) [])
                        (Answered True (status r3) (body_text r3)),
                      Fetch (createCommit_request env tok message (tree_sha (json r3)) (ref_object_sha (json r1)))
                        (Answered True (status r4) (body_text r4)),
                      Fetch (updateRef_request env tok (new_sha (json r4)))
                        (Answered True (status r5) (body_text r5))]\<rparr>)"
  using assms
  by (simp add: commit_files_def commit_files_body_def prog_defs require_token_def read_treeEntries_def
        commit_processedFiles_def Promise_all_def Let_def answer_of_def)

theorem commit_files_empty_list_witness:
  "fst (commit_files env0 node0 git_host [] ''m'' git0)
     = Committed \<lparr>cs_sha = ''commit1'', cs_message = ''m'', cs_author = ''github-actions[bot]'', cs_date = []\<rparr>
         [] ''tree1''
   \<and> git_refs (outside (snd (commit_files env0 node0 git_host [] ''m'' git0))) = [(''b'', ''commit1'')]
   \<and> git_commits (outside (snd (commit_files env0 node0 git_host [] ''m'' git0)))
       = [(''commit1'', ''tree1'', [''c0'']), (''c0'', ''t0'', [])]
   \<and> git_trees (outside (snd (commit_files env0 node0 git_host [] ''m'' git0)))
       = [(''tree1'', [(''README.md'', ''hello'')]), (''t0'', [(''README.md'', ''hello'')])]"
proof -
  let ?r1 = "\<lparr>ok = True, status = 200, body_text = [], json = \<lparr>ref_object_sha = ''c0''\<rparr>\<rparr>"
  let ?h1 = "git0\<lparr>git_clock := 1\<rparr>"
  let ?r2 = "\<lparr>ok = True, status = 200, body_text = [], json = \<lparr>commit_tree_sha = ''t0''\<rparr>\<rparr>"
  let ?h2 = "git0\<lparr>git_clock := 2\<rparr>"
  let ?r3 = "\<lparr>ok = True, status = 201, body_text = [], json = \<lparr>tree_sha = ''tree1''\<rparr>\<rparr>"
  let ?h3 = "git0\<lparr>git_trees := [(''tree1'', [(''README.md'', ''hello'')]), (''t0'', [(''README.md'', ''hello'')])],
                  git_clock := 3\<rparr>"
  let ?r4 = "\<lparr>ok = True, status = 201, body_text = [],
              json = \<lparr>new_sha = ''commit1'', new_message = ''m'',
                      new_author_name = ''github-actions[bot]'', new_author_date = []\<rparr>\<rparr>"
  let ?h4 = "?h3\<lparr>git_commits := [(''commit1'', ''tree1'', [''c0'']), (''c0'', ''t0'', [])], git_clock := 4\<rparr>"
  let ?r5 = "\<lparr>ok = True, status = 200, body_text = [], json = ()\<rparr>"
  let ?h5 = "?h4\<lparr>git_refs := [(''b'', ''commit1'')], git_clock := 5\<rparr>"
  have tok: "env_GITHUB_TOKEN env0 = Some ''tok''" "''tok'' \<noteq> []"
    by (simp_all add: env0_def)
  have 1: "fetch_GitHubRef git_host (getRef_request env0 ''tok'') git0 = (Inr ?r1, ?h1)"
    by (simp add: request_defs url_defs git_defs Let_def)
  have 2: "fetch_GitHubCommit git_host (getCommit_request env0 ''tok'' (ref_object_sha (json ?r1))) ?h1
             = (Inr ?r2, ?h2)"
    by (simp add: request_defs url_defs git_defs Let_def)
  have 3: "fetch_GitHubTree git_host (createTree_request env0 ''tok'' (commit_tree_sha (json ?r2)) []) ?h2
             = (Inr ?r3, ?h3)"
    by (simp add: request_defs url_defs git_defs Let_def toString_small)
  have 4: "fetch_GitHubNewCommit git_host
             (createCommit_request env0 ''tok'' ''m'' (tree_sha (json ?r3)) (ref_object_sha (json ?r1))) ?h3
             = (Inr ?r4, ?h4)"
    by (simp add: request_defs url_defs git_defs Let_def toString_small)
  have 5: "fetch_untyped git_host (updateRef_request env0 ''tok'' (new_sha (json ?r4))) ?h4 = (Inr ?r5, ?h5)"
    by (simp add: request_defs url_defs git_defs Let_def)
  from commit_files_empty_list[OF tok 1 _ 2 _ 3 _ 4 _ 5, of node0]
  have "commit_files env0 node0 git_host [] ''m'' git0 =
          (Committed (simplified_commit (json ?r4)) [] (tree_sha (json ?r3)),
           \<lparr>outside = ?h5,
            trace = [Fetch (getRef_request env0 ''tok'') (Answered True (status ?r1) (body_text ?r1)),
                     Fetch (getCommit_request env0 ''tok'' (ref_object_sha (json ?r1)))
                       (Answered True (status ?r2) (body_text ?r2)),
                     Fetch (createTree_request env0 ''tok'' (commit_tree_sha (json ?r2)) [])
                       (Answered True (status ?r3) (body_text ?r3)),
                     Fetch (createCommit_request env0 ''tok'' ''m'' (tree_sha (json ?r3)) (ref_object_sha (json ?r1)))
                       (Answered True (status ?r4) (body_text ?r4)),
                     Fetch (updateRef_request env0 ''tok'' (new_sha (json ?r4)))
                       (Answered True (status ?r5) (body_text ?r5))]\<rparr>)"
    by simp
  then show ?thesis
    by (simp add: simplified_commit_def git0_def)
qed


section \<open>The claims about the prepare entry point\<close>

text \<open>A run that reaches step 9 continues with steps 9 to 11 on the trace of steps 1 to 8.\<close>

lemma run_body_reaches_step9:
  assumes "reaches_step9 ops s tok ctx cid data bi s8"
  shows "run_body ops renv \<lparr>outside = s, trace = []\<rparr>
         = run_from_step9 ops renv tok ctx cid data bi \<lparr>outside = s8, trace = steps_1_to_8\<rparr>"
  using assms
  by (auto simp: reaches_step9_def run_body_def prog_defs steps_1_to_8_def Let_def)

text \<open>
  When the matcher, asked about the context the run has parsed, finds no trigger, the
  body of \<open>run\<close> stops at step 4.
\<close>

lemma run_body_no_trigger:
  assumes "\<forall>tok s1 ctx s2 s3.
             setupGitHubToken ops s = (Inr tok, s1) \<and> parseGitHubContext ops s1 = (Inr ctx, s2) \<and>
             checkWritePermissions ops tok ctx s2 = (Inr True, s3) \<longrightarrow>
             fst (checkTriggerAction ops ctx s3) = Inr False"
    and "run_body ops renv \<lparr>outside = s, trace = []\<rparr> = (r, w)"
  shows "set (trace w) \<subseteq> set no_trigger_steps \<and>
         (\<forall>tok s1 ctx s2 s3.
            setupGitHubToken ops s = (Inr tok, s1) \<and> parseGitHubContext ops s1 = (Inr ctx, s2) \<and>
            checkWritePermissions ops tok ctx s2 = (Inr True, s3) \<longrightarrow>
            r = Inr () \<and> trace w = no_trigger_steps)"
proof -
  note defs = run_body_def prog_defs Let_def no_trigger_steps_def
  obtain r1 s1 where 1: "setupGitHubToken ops s = (r1, s1)"
    by (cases "setupGitHubToken ops s")
  show ?thesis
  proof (cases r1)
    case (Inl e)
    with 1 assms(2) show ?thesis by (auto simp: defs)
  next
    case tok: (Inr tok)
    obtain r2 s2 where 2: "parseGitHubContext ops s1 = (r2, s2)"
      by (cases "parseGitHubContext ops s1")
    show ?thesis
    proof (cases r2)
      case (Inl e)
      with 1 tok 2 assms(2) show ?thesis by (auto simp: defs)
    next
      case ctx: (Inr ctx)
      obtain r3 s3 where 3: "checkWritePermissions ops tok ctx s2 = (r3, s3)"
        by (cases "checkWritePermissions ops tok ctx s2")
      show ?thesis
      proof (cases r3)
        case (Inl e)
        with 1 tok 2 ctx 3 assms(2) show ?thesis by (auto simp: defs)
      next
        case perm: (Inr hasWritePermissions)
        show ?thesis
        proof (cases hasWritePermissions)
          case False
          with 1 tok 2 ctx 3 perm assms(2) show ?thesis by (auto simp: defs)
        next
          case True
          obtain r4 s4 where 4: "checkTriggerAction ops ctx s3 = (r4, s4)"
            by (cases "checkTriggerAction ops ctx s3")
          from 1 tok 2 ctx 3 perm True
          have "setupGitHubToken ops s = (Inr tok, s1) \<and> parseGitHubContext ops s1 = (Inr ctx, s2) \<and>
                checkWritePermissions ops tok ctx s2 = (Inr True, s3)"
            by simp
          with assms(1) have "fst (checkTriggerAction ops ctx s3) = Inr False"
            by blast
          with 4 have "r4 = Inr False" by simp
          with 1 tok 2 ctx 3 perm True 4 assms(2) show ?thesis by (auto simp: defs)
        qed
      qed
    qed
  qed
qed

text \<open>Steps 9 to 11 only add to the trace, and the trigger is matched as the fourth call.\<close>

lemma determine_comment_id_appends:
  assumes "determine_comment_id ops tok ctx bi cid w = (r, w')"
  shows "\<exists>evs. trace w' = trace w @ evs"
  using assms
  by (auto simp: determine_comment_id_def prog_defs Let_def
           split: prod.splits sum.splits if_splits list.splits)

lemma run_from_step9_appends:
  assumes "run_from_step9 ops renv tok ctx cid data bi w = (r, w')"
  shows "\<exists>evs. trace w' = trace w @ evs"
  using assms
  apply (clarsimp simp: run_from_step9_def bnd_def ret_def call_def emit_def Let_def
         split: prod.splits sum.splits if_splits)
     apply (auto dest!: determine_comment_id_appends)
  done

lemma run_body_order:
  assumes "run_body ops renv \<lparr>outside = s, trace = []\<rparr> = (r, w)"
    and "CheckTriggerAction \<in> set (trace w)"
  shows "take 4 (trace w) = [SetupGitHubToken, ParseGitHubContext, CheckWritePermissions, CheckTriggerAction]"
  using assms
  apply (clarsimp simp: run_body_def prog_defs Let_def split: prod.splits sum.splits if_splits)
                apply (auto dest!: run_from_step9_appends)
  done

text \<open>Rules to evaluate \<open>run\<close> on a scenario.\<close>

lemmas run_defs = run_def run_body_def run_from_step9_def determine_comment_id_def prog_defs
  scenario_ops_def sc_issue_def context0_def truthy_def steps_1_to_8_def no_trigger_steps_def Let_def
  new_Error_def error_toString_def

text \<open>
  C4, as it is written, fails: on an issue event with a new branch and an open pull
  request 9 for it, when the creation of the comment on the pull request throws, the
  run logs, edits the original comment 1, goes on to the prompt and the configuration
  and returns; it does not fail.
\<close>

theorem redirect_failures_counterexample:
  "run (scenario_ops (sc_issue\<lparr>sc_pulls := Inr [\<lparr>pr_number = 9\<rparr>],
                                sc_createComment := Some (JsError ''HttpError'' ''Validation Failed'')\<rparr>))
     renv0 []
   = (Returned,
      \<lparr>outside = [(1, 5, ''working on claude/issue-5'')],
       trace = [SetupGitHubToken, ParseGitHubContext, CheckWritePermissions, CheckTriggerAction,
                CheckHumanActor, CreateInitialComment, FetchGitHubData, SetupBranch,
                PullsList ''o:claude/issue-5'',
                ConsoleLog ''Found PR #9 for branch claude/issue-5, creating new comment'',
                CreateComment 9 working_body,
                ConsoleLog ''No PR found for branch claude/issue-5, using original comment'',
                UpdateTrackingComment 1 ''claude/issue-5'',
                CreatePrompt 1,
                SetOutput ''mcp_config'' (prepareMcpConfig renv0 ''tok'' ''o'' ''r'' ''claude/issue-5'')]\<rparr>)"
  by (simp add: run_defs toString_small)

text \<open>
  C4, amended. On an issue event with a new branch, a failure of the lookup of the
  open pull requests and a failure of the creation of the comment on the pull request
  found are both swallowed: \<open>run\<close> logs that no pull request was found and goes on to
  edit the original comment (and returns when the edit and the prompt succeed). A
  failure of that edit, and a failure of the creation of the initial comment, end the
  process with \<open>setFailed\<close> and exit code 1.
\<close>

theorem redirect_failures:
  fixes ops :: "('w, 'd) ops"
  defines "repo_owner \<equiv> \<lambda>ctx. repository_owner (ctx_repository ctx)"
    and "repo_name \<equiv> \<lambda>ctx. repository_repo (ctx_repository ctx)"
  shows "(reaches_step9 ops s tok ctx cid data bi s8 \<and> \<not> isPR ctx \<and> truthy (claudeBranch bi) \<longrightarrow>
           (pulls_list ops tok (repo_owner ctx) (repo_name ctx)
              (repo_owner ctx @ '':'' @ the (claudeBranch bi)) ''open'' s8 = (Inl e, s9) \<longrightarrow>
            take 11 (trace (snd (run ops renv s))) =
              steps_1_to_8 @
              [PullsList (repo_owner ctx @ '':'' @ the (claudeBranch bi)),
               ConsoleLog (''No PR found for branch '' @ the (claudeBranch bi) @ '', using original comment''),
               UpdateTrackingComment cid (the (claudeBranch bi))] \<and>
            (updateTrackingComment ops tok ctx cid (the (claudeBranch bi)) s9 = (Inl e2, s10) \<longrightarrow>
             run ops renv s =
               (Exit 1,
                \<lparr>outside = s10,
                 trace = steps_1_to_8 @
                   [PullsList (repo_owner ctx @ '':'' @ the (claudeBranch bi)),
                    ConsoleLog (''No PR found for branch '' @ the (claudeBranch bi)
                                  @ '', using original comment''),
                    UpdateTrackingComment cid (the (claudeBranch bi)),
                    SetFailed (''Prepare step failed with error: '' @ error_toString e2)]\<rparr>)))
         \<and> (pulls_list ops tok (repo_owner ctx) (repo_name ctx)
              (repo_owner ctx @ '':'' @ the (claudeBranch bi)) ''open'' s8 = (Inr (pr # prs), s9) \<and>
            issues_createComment ops tok (repo_owner ctx) (repo_name ctx) (pr_number pr) working_body s9
              = (Inl e, s10) \<longrightarrow>
            take 13 (trace (snd (run ops renv s))) =
              steps_1_to_8 @
              [PullsList (repo_owner ctx @ '':'' @ the (claudeBranch bi)),
               ConsoleLog (''Found PR #'' @ toString (pr_number pr) @ '' for branch ''
                             @ the (claudeBranch bi) @ '', creating new comment''),
               CreateComment (pr_number pr) working_body,
               ConsoleLog (''No PR found for branch '' @ the (claudeBranch bi) @ '', using original comment''),
               UpdateTrackingComment cid (the (claudeBranch bi))] \<and>
            (updateTrackingComment ops tok ctx cid (the (claudeBranch bi)) s10 = (Inr (), s11) \<and>
             createPrompt ops cid (defaultBranch bi) (claudeBranch bi) data ctx s11 = (Inr (), s12) \<longrightarrow>
             fst (run ops renv s) = Returned) \<and>
            (updateTrackingComment ops tok ctx cid (the (claudeBranch bi)) s10 = (Inl e2, s11) \<longrightarrow>
             run ops renv s =
               (Exit 1,
                \<lparr>outside = s11,
                 trace = steps_1_to_8 @
                   [PullsList (repo_owner ctx @ '':'' @ the (claudeBranch bi)),
                    ConsoleLog (''Found PR #'' @ toString (pr_number pr) @ '' for branch ''
                                  @ the (claudeBranch bi) @ '', creating new comment''),
                    CreateComment (pr_number pr) working_body,
                    ConsoleLog (''No PR found for branch '' @ the (claudeBranch bi)
                                  @ '', using original comment''),
                    UpdateTrackingComment cid (the (claudeBranch bi)),
                    SetFailed (''Prepare step failed with error: '' @ error_toString e2)]\<rparr>)))
         \<and> (pulls_list ops tok (repo_owner ctx) (repo_name ctx)
              (repo_owner ctx @ '':'' @ the (claudeBranch bi)) ''open'' s8 = (Inr [], s9) \<and>
            updateTrackingComment ops tok ctx cid (the (claudeBranch bi)) s9 = (Inl e, s10) \<longrightarrow>
            run ops renv s =
              (Exit 1,
               \<lparr>outside = s10,
                trace = steps_1_to_8 @
                  [PullsList (repo_owner ctx @ '':'' @ the (claudeBranch bi)),
                   UpdateTrackingComment cid (the (claudeBranch bi)),
                   SetFailed (''Prepare step failed with error: '' @ error_toString e)]\<rparr>)))
       \<and> (setupGitHubToken ops s = (Inr tok, s1) \<and> parseGitHubContext ops s1 = (Inr ctx, s2) \<and>
          checkWritePermissions ops tok ctx s2 = (Inr True, s3) \<and>
          checkTriggerAction ops ctx s3 = (Inr True, s4) \<and>
          checkHumanActor ops tok ctx s4 = (Inr (), s5) \<and>
          createInitialComment ops tok ctx s5 = (Inl e, s6) \<longrightarrow>
          run ops renv s =
            (Exit 1,
             \<lparr>outside = s6,
              trace = [SetupGitHubToken, ParseGitHubContext, CheckWritePermissions, CheckTriggerAction,
                       CheckHumanActor, CreateInitialComment,
                       SetFailed (''Prepare step failed with error: '' @ error_toString e)]\<rparr>))"
proof (intro conjI impI)
  assume a: "reaches_step9 ops s tok ctx cid data bi s8 \<and> \<not> isPR ctx \<and> truthy (claudeBranch bi)"
  then have r: "reaches_step9 ops s tok ctx cid data bi s8" and i: "\<not> isPR ctx" "truthy (claudeBranch bi)"
    by simp_all
  note run = run_def run_body_reaches_step9[OF r] run_from_step9_def determine_comment_id_def prog_defs
    steps_1_to_8_def Let_def repo_owner_def repo_name_def
  {
    assume c: "pulls_list ops tok (repo_owner ctx) (repo_name ctx)
              (repo_owner ctx @ '':'' @ the (claudeBranch bi)) ''open'' s8 = (Inl e, s9)"
    with i show "take 11 (trace (snd (run ops renv s))) =
              steps_1_to_8 @
              [PullsList (repo_owner ctx @ '':'' @ the (claudeBranch bi)),
               ConsoleLog (''No PR found for branch '' @ the (claudeBranch bi) @ '', using original comment''),
               UpdateTrackingComment cid (the (claudeBranch bi))]"
      by (auto simp: run split: prod.splits sum.splits)
    assume "updateTrackingComment ops tok ctx cid (the (claudeBranch bi)) s9 = (Inl e2, s10)"
    with i c show "run ops renv s =
               (Exit 1,
                \<lparr>outside = s10,
                 trace = steps_1_to_8 @
                   [PullsList (repo_owner ctx @ '':'' @ the (claudeBranch bi)),
                    ConsoleLog (''No PR found for branch '' @ the (claudeBranch bi)
                                  @ '', using original comment''),
                    UpdateTrackingComment cid (the (claudeBranch bi)),
                    SetFailed (''Prepare step failed with error: '' @ error_toString e2)]\<rparr>)"
      by (auto simp: run split: prod.splits sum.splits)
  }
  {
    assume c: "pulls_list ops tok (repo_owner ctx) (repo_name ctx)
              (repo_owner ctx @ '':'' @ the (claudeBranch bi)) ''open'' s8 = (Inr (pr # prs), s9) \<and>
            issues_createComment ops tok (repo_owner ctx) (repo_name ctx) (pr_number pr) working_body s9
              = (Inl e, s10)"
    with i show "take 13 (trace (snd (run ops renv s))) =
              steps_1_to_8 @
              [PullsList (repo_owner ctx @ '':'' @ the (claudeBranch bi)),
               ConsoleLog (''Found PR #'' @ toString (pr_number pr) @ '' for branch ''
                             @ the (claudeBranch bi) @ '', creating new comment''),
               CreateComment (pr_number pr) working_body,
               ConsoleLog (''No PR found for branch '' @ the (claudeBranch bi) @ '', using original comment''),
               UpdateTrackingComment cid (the (claudeBranch bi))]"
      by (auto simp: run split: prod.splits sum.splits)
    assume "updateTrackingComment ops tok ctx cid (the (claudeBranch bi)) s10 = (Inr (), s11) \<and>
             createPrompt ops cid (defaultBranch bi) (claudeBranch bi) data ctx s11 = (Inr (), s12)"
    with i c show "fst (run ops renv s) = Returned"
      by (auto simp: run split: prod.splits sum.splits)
  }
  {
    assume c: "pulls_list ops tok (repo_owner ctx) (repo_name ctx)
              (repo_owner ctx @ '':'' @ the (claudeBranch bi)) ''open'' s8 = (Inr (pr # prs), s9) \<and>
            issues_createComment ops tok (repo_owner ctx) (repo_name ctx) (pr_number pr) working_body s9
              = (Inl e, s10)"
    assume "updateTrackingComment ops tok ctx cid (the (claudeBranch bi)) s10 = (Inl e2, s11)"
    with i c show "run ops renv s =
               (Exit 1,
                \<lparr>outside = s11,
                 trace = steps_1_to_8 @
                   [PullsList (repo_owner ctx @ '':'' @ the (claudeBranch bi)),
                    ConsoleLog (''Found PR #'' @ toString (pr_number pr) @ '' for branch ''
                                  @ the (claudeBranch bi) @ '', creating new comment''),
                    CreateComment (pr_number pr) working_body,
                    ConsoleLog (''No PR found for branch '' @ the (claudeBranch bi)
                                  @ '', using original comment''),
                    UpdateTrackingComment cid (the (claudeBranch bi)),
                    SetFailed (''Prepare step failed with error: '' @ error_toString e2)]\<rparr>)"
      by (auto simp: run split: prod.splits sum.splits)
  }
  {
    assume "pulls_list ops tok (repo_owner ctx) (repo_name ctx)
              (repo_owner ctx @ '':'' @ the (claudeBranch bi)) ''open'' s8 = (Inr [], s9) \<and>
            updateTrackingComment ops tok ctx cid (the (claudeBranch bi)) s9 = (Inl e, s10)"
    with i show "run ops renv s =
              (Exit 1,
               \<lparr>outside = s10,
                trace = steps_1_to_8 @
                  [PullsList (repo_owner ctx @ '':'' @ the (claudeBranch bi)),
                   UpdateTrackingComment cid (the (claudeBranch bi)),
                   SetFailed (''Prepare step failed with error: '' @ error_toString e)]\<rparr>)"
      by (auto simp: run split: prod.splits sum.splits)
  }
next
  assume "setupGitHubToken ops s = (Inr tok, s1) \<and> parseGitHubContext ops s1 = (Inr ctx, s2) \<and>
          checkWritePermissions ops tok ctx s2 = (Inr True, s3) \<and>
          checkTriggerAction ops ctx s3 = (Inr True, s4) \<and>
          checkHumanActor ops tok ctx s4 = (Inr (), s5) \<and>
          createInitialComment ops tok ctx s5 = (Inl e, s6)"
  then show "run ops renv s =
            (Exit 1,
             \<lparr>outside = s6,
              trace = [SetupGitHubToken, ParseGitHubContext, CheckWritePermissions, CheckTriggerAction,
                       CheckHumanActor, CreateInitialComment,
                       SetFailed (''Prepare step failed with error: '' @ error_toString e)]\<rparr>)"
    by (simp add: run_def run_body_def prog_defs Let_def)
qed


text \<open>
  The branch of the scenarios, the state after step 8 (the initial comment 1 on the
  issue 5), and that the scenarios with the permission and the trigger reach step 9.
\<close>

lemma scenario_reaches_step9:
  assumes "sc_permission sc" and "sc_trigger sc"
  shows "reaches_step9 (scenario_ops sc) [] ''tok'' (context0 (sc_isPR sc)) 1 ()
           \<lparr>defaultBranch = ''main'',
            currentBranch = (case sc_claudeBranch sc of None \<Rightarrow> ''head'' | Some b \<Rightarrow> b),
            claudeBranch = sc_claudeBranch sc\<rparr>
           [(1, 5, ''working'')]"
  using assms by (simp add: reaches_step9_def scenario_ops_def context0_def)

theorem redirect_failures_witness:
  "fst (run (scenario_ops (sc_issue\<lparr>sc_pulls := Inr [\<lparr>pr_number = 9\<rparr>],
                                     sc_createComment := Some (JsError ''HttpError'' ''Validation Failed'')\<rparr>))
          renv0 []) = Returned
   \<and> take 11 (trace (snd (run (scenario_ops (sc_issue\<lparr>sc_pulls := Inl (JsError ''HttpError'' ''Server Error'')\<rparr>))
                             renv0 [])))
       = steps_1_to_8 @
         [PullsList ''o:claude/issue-5'',
          ConsoleLog ''No PR found for branch claude/issue-5, using original comment'',
          UpdateTrackingComment 1 ''claude/issue-5'']
   \<and> fst (run (scenario_ops (sc_issue\<lparr>sc_updateComment := Some (JsError ''HttpError'' ''Not Found'')\<rparr>))
            renv0 []) = Exit 1"
proof -
  let ?bi = "\<lparr>defaultBranch = ''main'', currentBranch = ''claude/issue-5'',
              claudeBranch = Some ''claude/issue-5''\<rparr>"
  let ?A = "sc_issue\<lparr>sc_pulls := Inr [\<lparr>pr_number = 9\<rparr>],
                     sc_createComment := Some (JsError ''HttpError'' ''Validation Failed'')\<rparr>"
  let ?B = "sc_issue\<lparr>sc_pulls := Inl (JsError ''HttpError'' ''Server Error'')\<rparr>"
  let ?C = "sc_issue\<lparr>sc_updateComment := Some (JsError ''HttpError'' ''Not Found'')\<rparr>"
  have rA: "reaches_step9 (scenario_ops ?A) [] ''tok'' (context0 False) 1 () ?bi [(1, 5, ''working'')]"
    using scenario_reaches_step9[of ?A] by (simp add: sc_issue_def)
  have rB: "reaches_step9 (scenario_ops ?B) [] ''tok'' (context0 False) 1 () ?bi [(1, 5, ''working'')]"
    using scenario_reaches_step9[of ?B] by (simp add: sc_issue_def)
  have rC: "reaches_step9 (scenario_ops ?C) [] ''tok'' (context0 False) 1 () ?bi [(1, 5, ''working'')]"
    using scenario_reaches_step9[of ?C] by (simp add: sc_issue_def)
  from rA redirect_failures[where ops = "scenario_ops ?A" and s = "[]" and tok = "''tok''"
      and ctx = "context0 False" and cid = 1 and data = "()" and bi = ?bi and ?s8.0 = "[(1, 5, ''working'')]"
      and pr = "\<lparr>pr_number = 9\<rparr>" and prs = "[]" and ?s9.0 = "[(1, 5, ''working'')]"
      and e = "JsError ''HttpError'' ''Validation Failed''" and ?s10.0 = "[(1, 5, ''working'')]"
      and ?s11.0 = "[(1, 5, ''working on claude/issue-5'')]" and ?s12.0 = "[(1, 5, ''working on claude/issue-5'')]"
      and renv = renv0]
  have a: "fst (run (scenario_ops ?A) renv0 []) = Returned"
    by (simp add: scenario_ops_def sc_issue_def context0_def truthy_def)
  from rB redirect_failures[where ops = "scenario_ops ?B" and s = "[]" and tok = "''tok''"
      and ctx = "context0 False" and cid = 1 and data = "()" and bi = ?bi and ?s8.0 = "[(1, 5, ''working'')]"
      and e = "JsError ''HttpError'' ''Server Error''" and ?s9.0 = "[(1, 5, ''working'')]" and renv = renv0]
  have b: "take 11 (trace (snd (run (scenario_ops ?B) renv0 [])))
             = steps_1_to_8 @
               [PullsList ''o:claude/issue-5'',
                ConsoleLog ''No PR found for branch claude/issue-5, using original comment'',
                UpdateTrackingComment 1 ''claude/issue-5'']"
    by (simp add: scenario_ops_def sc_issue_def context0_def truthy_def)
  from rC redirect_failures[where ops = "scenario_ops ?C" and s = "[]" and tok = "''tok''"
      and ctx = "context0 False" and cid = 1 and data = "()" and bi = ?bi and ?s8.0 = "[(1, 5, ''working'')]"
      and e = "JsError ''HttpError'' ''Not Found''" and ?s9.0 = "[(1, 5, ''working'')]"
      and ?s10.0 = "[(1, 5, ''working'')]" and renv = renv0]
  have c: "fst (run (scenario_ops ?C) renv0 []) = Exit 1"
    by (simp add: scenario_ops_def sc_issue_def context0_def truthy_def)
  from a b c show ?thesis by simp
qed





text \<open>
  C6, as it is written, fails: with the trigger absent and the write permission
  denied, the process ends with \<open>setFailed\<close> and exit code 1.
\<close>

theorem no_trigger_no_effect_counterexample:
  "checkTriggerAction (scenario_ops (sc_issue\<lparr>sc_permission := False, sc_trigger := False\<rparr>))
     (context0 False) [] = (Inr False, [])
   \<and> run (scenario_ops (sc_issue\<lparr>sc_permission := False, sc_trigger := False\<rparr>)) renv0 []
     = (Exit 1,
        \<lparr>outside = [],
         trace = [SetupGitHubToken, ParseGitHubContext, CheckWritePermissions,
                  SetFailed ''Prepare step failed with error: Error: Actor does not have write permissions to the repository'']\<rparr>)"
  by (simp add: run_defs)

text \<open>
  C6, amended. When the trigger is absent from the event of the run (the matcher,
  asked about the context the run has parsed, answers no; other events may well hold
  the trigger), the trace of the run holds nothing but steps 1 to 4, the log that no
  trigger was found and \<open>setFailed\<close>: no human-actor check, no comment, no data fetch,
  no branch, no redirect, no prompt and no configuration. When moreover steps 1 to 3
  succeed and the permission is granted, \<open>run\<close> returns, with the steps 1 to 4 and the
  log as its trace.
\<close>

theorem no_trigger_no_effect:
  assumes "\<forall>tok s1 ctx s2 s3.
             setupGitHubToken ops s = (Inr tok, s1) \<and> parseGitHubContext ops s1 = (Inr ctx, s2) \<and>
             checkWritePermissions ops tok ctx s2 = (Inr True, s3) \<longrightarrow>
             fst (checkTriggerAction ops ctx s3) = Inr False"
  shows "(\<forall>e \<in> set (trace (snd (run ops renv s))). e \<in> set no_trigger_steps \<or> (\<exists>m. e = SetFailed m))
       \<and> (setupGitHubToken ops s = (Inr tok, s1) \<and> parseGitHubContext ops s1 = (Inr ctx, s2) \<and>
          checkWritePermissions ops tok ctx s2 = (Inr True, s3) \<longrightarrow>
          fst (run ops renv s) = Returned \<and> trace (snd (run ops renv s)) = no_trigger_steps)"
proof -
  obtain r w where rw: "run_body ops renv \<lparr>outside = s, trace = []\<rparr> = (r, w)"
    by (cases "run_body ops renv \<lparr>outside = s, trace = []\<rparr>")
  from run_body_no_trigger[OF assms rw] show ?thesis
    by (cases r) (auto simp: run_def rw)
qed

text \<open>
  A matcher that finds the trigger in pull request events and not in issue events, on
  the issue event 5: the run returns after step 4 and there is no comment.
\<close>

theorem no_trigger_no_effect_witness:
  "fst (run ((scenario_ops sc_issue)\<lparr>checkTriggerAction := (\<lambda>context w. (Inr (isPR context), w))\<rparr>) renv0 [])
     = Returned
   \<and> trace (snd (run ((scenario_ops sc_issue)\<lparr>checkTriggerAction := (\<lambda>context w. (Inr (isPR context), w))\<rparr>)
                    renv0 []))
       = no_trigger_steps
   \<and> outside (snd (run ((scenario_ops sc_issue)\<lparr>checkTriggerAction := (\<lambda>context w. (Inr (isPR context), w))\<rparr>)
                      renv0 []))
       = []
   \<and> fst (checkTriggerAction ((scenario_ops sc_issue)\<lparr>checkTriggerAction := (\<lambda>context w. (Inr (isPR context), w))\<rparr>)
            (context0 True) []) = Inr True"
proof -
  let ?N = "(scenario_ops sc_issue)\<lparr>checkTriggerAction := (\<lambda>context w. (Inr (isPR context), w))\<rparr>"
  have h: "setupGitHubToken ?N [] = (Inr ''tok'', []) \<and>
           parseGitHubContext ?N [] = (Inr (context0 False), []) \<and>
           checkWritePermissions ?N ''tok'' (context0 False) [] = (Inr True, [])"
    by (simp add: scenario_ops_def sc_issue_def)
  have n: "\<forall>tok s1 ctx s2 s3.
             setupGitHubToken ?N [] = (Inr tok, s1) \<and> parseGitHubContext ?N s1 = (Inr ctx, s2) \<and>
             checkWritePermissions ?N tok ctx s2 = (Inr True, s3) \<longrightarrow>
             fst (checkTriggerAction ?N ctx s3) = Inr False"
    by (auto simp: scenario_ops_def sc_issue_def context0_def)
  from no_trigger_no_effect[OF n, of renv0 "''tok''" "[]" "context0 False" "[]" "[]"] h
  have "fst (run ?N renv0 []) = Returned \<and> trace (snd (run ?N renv0 [])) = no_trigger_steps"
    by blast
  moreover have "outside (snd (run ?N renv0 [])) = []"
    by (simp add: run_defs)
  moreover have "fst (checkTriggerAction ?N (context0 True) []) = Inr True"
    by (simp add: context0_def)
  ultimately show ?thesis by simp
qed

text \<open>
  C7. The write permission is checked at step 3, before the trigger at step 4: in
  every run in which the trigger is matched at all, the first four calls are the token,
  the context, the permission check and the trigger match. When steps 1 and 2 succeed
  and the permission is denied, the process ends with \<open>setFailed\<close> and exit code 1 and
  the trigger is not looked at, so this holds whether the trigger is there or not. When
  the permission is granted and the trigger is absent, \<open>run\<close> returns. The two ends
  differ.
\<close>

theorem permission_gate_before_trigger:
  "(CheckTriggerAction \<in> set (trace (snd (run ops renv s))) \<longrightarrow>
      take 4 (trace (snd (run ops renv s)))
        = [SetupGitHubToken, ParseGitHubContext, CheckWritePermissions, CheckTriggerAction])
   \<and> (setupGitHubToken ops s = (Inr tok, s1) \<and> parseGitHubContext ops s1 = (Inr ctx, s2) \<and>
      checkWritePermissions ops tok ctx s2 = (Inr False, s3) \<longrightarrow>
        run ops renv s =
          (Exit 1,
           \<lparr>outside = s3,
            trace = [SetupGitHubToken, ParseGitHubContext, CheckWritePermissions,
                     SetFailed ''Prepare step failed with error: Error: Actor does not have write permissions to the repository'']\<rparr>))
   \<and> (setupGitHubToken ops s = (Inr tok, s1) \<and> parseGitHubContext ops s1 = (Inr ctx, s2) \<and>
      checkWritePermissions ops tok ctx s2 = (Inr True, s3) \<and>
      checkTriggerAction ops ctx s3 = (Inr False, s4) \<longrightarrow>
        run ops renv s =
          (Returned,
           \<lparr>outside = s4,
            trace = [SetupGitHubToken, ParseGitHubContext, CheckWritePermissions, CheckTriggerAction,
                     ConsoleLog ''No trigger found, skipping remaining steps'']\<rparr>))
   \<and> Exit 1 \<noteq> Returned"
proof (intro conjI impI)
  assume t: "CheckTriggerAction \<in> set (trace (snd (run ops renv s)))"
  obtain r w where rw: "run_body ops renv \<lparr>outside = s, trace = []\<rparr> = (r, w)"
    by (cases "run_body ops renv \<lparr>outside = s, trace = []\<rparr>")
  from t have "CheckTriggerAction \<in> set (trace w)"
    by (cases r) (auto simp: run_def rw)
  from run_body_order[OF rw this]
  have 4: "take 4 (trace w) = [SetupGitHubToken, ParseGitHubContext, CheckWritePermissions, CheckTriggerAction]" .
  then have "4 \<le> length (trace w)"
    by (metis length_take min.cobounded1 length_Cons list.size(3) numeral_Bit0 One_nat_def
          Suc_eq_plus1 add_2_eq_Suc' numeral_2_eq_2 one_add_one)
  with 4 show "take 4 (trace (snd (run ops renv s)))
        = [SetupGitHubToken, ParseGitHubContext, CheckWritePermissions, CheckTriggerAction]"
    by (cases r) (auto simp: run_def rw)
next
  assume "setupGitHubToken ops s = (Inr tok, s1) \<and> parseGitHubContext ops s1 = (Inr ctx, s2) \<and>
      checkWritePermissions ops tok ctx s2 = (Inr False, s3)"
  then show "run ops renv s =
          (Exit 1,
           \<lparr>outside = s3,
            trace = [SetupGitHubToken, ParseGitHubContext, CheckWritePermissions,
                     SetFailed ''Prepare step failed with error: Error: Actor does not have write permissions to the repository'']\<rparr>)"
    by (simp add: run_def run_body_def prog_defs Let_def new_Error_def error_toString_def)
next
  assume "setupGitHubToken ops s = (Inr tok, s1) \<and> parseGitHubContext ops s1 = (Inr ctx, s2) \<and>
      checkWritePermissions ops tok ctx s2 = (Inr True, s3) \<and>
      checkTriggerAction ops ctx s3 = (Inr False, s4)"
  then show "run ops renv s =
          (Returned,
           \<lparr>outside = s4,
            trace = [SetupGitHubToken, ParseGitHubContext, CheckWritePermissions, CheckTriggerAction,
                     ConsoleLog ''No trigger found, skipping remaining steps'']\<rparr>)"
    by (simp add: run_def run_body_def prog_defs Let_def)
next
  show "Exit 1 \<noteq> Returned" by simp
qed

theorem permission_gate_before_trigger_witness:
  "fst (run (scenario_ops (sc_issue\<lparr>sc_permission := False, sc_trigger := False\<rparr>)) renv0 []) = Exit 1
   \<and> CheckTriggerAction
       \<notin> set (trace (snd (run (scenario_ops (sc_issue\<lparr>sc_permission := False, sc_trigger := False\<rparr>)) renv0 [])))
   \<and> fst (run (scenario_ops (sc_issue\<lparr>sc_permission := False\<rparr>)) renv0 []) = Exit 1
   \<and> fst (run (scenario_ops (sc_issue\<lparr>sc_trigger := False\<rparr>)) renv0 []) = Returned
   \<and> take 4 (trace (snd (run (scenario_ops sc_issue) renv0 [])))
       = [SetupGitHubToken, ParseGitHubContext, CheckWritePermissions, CheckTriggerAction]"
proof -
  let ?D = "sc_issue\<lparr>sc_permission := False, sc_trigger := False\<rparr>"
  let ?E = "sc_issue\<lparr>sc_permission := False\<rparr>"
  let ?N = "sc_issue\<lparr>sc_trigger := False\<rparr>"
  have s: "setupGitHubToken (scenario_ops sc) [] = (Inr ''tok'', [])" for sc
    by (simp add: scenario_ops_def)
  have p: "parseGitHubContext (scenario_ops sc) [] = (Inr (context0 (sc_isPR sc)), [])" for sc
    by (simp add: scenario_ops_def)
  have w: "checkWritePermissions (scenario_ops sc) ''tok'' c [] = (Inr (sc_permission sc), [])" for sc c
    by (simp add: scenario_ops_def)
  have t: "checkTriggerAction (scenario_ops sc) c [] = (Inr (sc_trigger sc), [])" for sc c
    by (simp add: scenario_ops_def)
  note g = permission_gate_before_trigger[where s = "[]" and tok = "''tok''" and ?s1.0 = "[]"
      and ?s2.0 = "[]" and ?s3.0 = "[]" and ?s4.0 = "[]" and renv = renv0]
  from g[of "scenario_ops ?D" "context0 (sc_isPR ?D)"] s[of ?D] p[of ?D] w[of ?D]
  have d: "fst (run (scenario_ops ?D) renv0 []) = Exit 1
           \<and> CheckTriggerAction \<notin> set (trace (snd (run (scenario_ops ?D) renv0 [])))"
    by (simp add: sc_issue_def)
  from g[of "scenario_ops ?E" "context0 (sc_isPR ?E)"] s[of ?E] p[of ?E] w[of ?E]
  have e: "fst (run (scenario_ops ?E) renv0 []) = Exit 1"
    by (simp add: sc_issue_def)
  from g[of "scenario_ops ?N" "context0 (sc_isPR ?N)"] s[of ?N] p[of ?N] w[of ?N] t[of ?N]
  have n: "fst (run (scenario_ops ?N) renv0 []) = Returned"
    by (simp add: sc_issue_def)
  have "CheckTriggerAction \<in> set (trace (snd (run (scenario_ops sc_issue) renv0 [])))"
    by (simp add: run_defs toString_small)
  with g[of "scenario_ops sc_issue" "context0 False"]
  have i: "take 4 (trace (snd (run (scenario_ops sc_issue) renv0 [])))
             = [SetupGitHubToken, ParseGitHubContext, CheckWritePermissions, CheckTriggerAction]"
    by blast
  from d e n i show ?thesis by simp
qed


end
